theory Spec2Isabelle
  imports Main "HOL-Library.Word"
begin

unbundle bit_operations_syntax

section \<open>Universal Hardware Programmer: data model\<close>

text \<open>
  The sketch \<^verbatim>\<open>src/main.cpp\<close> drives three memory technologies from an
  Arduino. It manipulates the AVR port registers \<^verbatim>\<open>DDRD\<close>, \<^verbatim>\<open>PORTD\<close>,
  \<^verbatim>\<open>PIND\<close>, \<^verbatim>\<open>DDRB\<close>, \<^verbatim>\<open>PORTB\<close>, \<^verbatim>\<open>PINB\<close> directly and its
  documentation names the Uno and the Mega as boards, so the target is an 8-bit AVR:
  \<^verbatim>\<open>byte\<close> is 8 bits, \<^verbatim>\<open>unsigned int\<close> is 16 bits and \<^verbatim>\<open>unsigned long\<close> is 32 bits.
  All three are modelled as machine words, so every truncation and wrap-around of the
  source is part of the model.
\<close>

type_synonym byte = "8 word"
type_synonym uint = "16 word"
type_synonym ulong = "32 word"

datatype MemoryType = MEM_UNKNOWN | MEM_NAND_FLASH | MEM_SPI_FLASH | MEM_I2C_EEPROM

datatype pin =
    SPI_CS_PIN | NAND_CLE_PIN | NAND_ALE_PIN | NAND_WE_PIN
  | NAND_RE_PIN | NAND_CE_PIN | NAND_RB_PIN

text \<open>
  Everything the controller drives onto a bus is recorded, in order, as an event.
  \<open>NandBusOut\<close> is the byte presented on the eight data lines D2..D9,
  \<open>NandBusIn\<close> the byte sampled from them; \<open>SpiTransfer out in\<close> is one
  \<^verbatim>\<open>SPI.transfer\<close>; the \<open>Wire\<close> events are the calls of the two-wire library.
\<close>

datatype event =
    DigitalWrite pin bool
  | DelayMicroseconds nat
  | Delay nat
  | NandBusOut byte
  | NandBusIn byte
  | SpiTransfer byte byte
  | WireBegin byte
  | WireWrite byte
  | WireEnd byte
  | WireRequest byte uint
  | WireRead byte

text \<open>
  The lines the sketch prints that carry a result. Each constructor stands for one
  \<^verbatim>\<open>Serial.println\<close> of the source:
  \<open>NoTechnologySelected\<close> is \<^verbatim>\<open>"Please select memory type first!"\<close>,
  \<open>BoundaryViolation\<close> is \<^verbatim>\<open>"Error: Write crosses page boundary!"\<close>,
  \<open>BoundaryWarning\<close> is \<^verbatim>\<open>"Warning: Write crosses page boundary!"\<close>,
  \<open>Timeout\<close> is \<^verbatim>\<open>"Warning: NAND Flash timeout"\<close>,
  \<open>BusAbsent a\<close> is \<^verbatim>\<open>"Error: Device at address 0x.. not responding"\<close>,
  \<open>HexDump bs\<close> is the dump of the bytes \<open>bs\<close> that a read path clocked in.
  Prompts and echo lines of the text front end are not modelled; its parsed values are
  the parameters of the operations.
\<close>

datatype message =
    NoTechnologySelected
  | UnknownMemoryType
  | NandModeSelected
  | SpiModeSelected
  | I2cModeSelected byte
  | NandResetComplete
  | Timeout
  | NandIdByte byte
  | SpiId byte byte byte
  | DeviceName string
  | I2cDeviceFound byte bool
  | NoI2cDevices
  | LimitWarning
  | HexDump "byte list"
  | BoundaryViolation
  | BoundaryWarning
  | ProgramFailed
  | ProgramSuccessful
  | WriteComplete
  | BusAbsent byte
  | EraseFailed
  | EraseSuccessful
  | EraseComplete
  | EraseAborted
  | InvalidOption
  | ProgressDot
  | NandStatus byte bool bool bool
  | SpiStatus byte bool bool byte bool
  | I2cPresent bool
  | I2cReady bool
  | I2cAddressSet byte
  | InvalidI2cAddress

text \<open>
  The hardware as the sketch sees it. The first group are registers and output pins,
  \<open>trace\<close> and \<open>serial\<close> are what has been emitted so far. The rest is the
  environment: the NAND device behind the parallel bus (any state type \<open>'d\<close> with a
  reaction \<open>nand_we\<close> to a write strobe and \<open>nand_re\<close> to a read strobe, both
  given the levels of CE#, and of CLE and ALE for a write), and the inputs the sketch
  samples, each as the sequence of values that successive calls return together with the
  number of calls made so far: the ready/busy line, \<^verbatim>\<open>millis()\<close>, the MISO byte of
  each SPI transfer, the result of each \<^verbatim>\<open>Wire.endTransmission\<close> and the bytes each
  \<^verbatim>\<open>Wire.requestFrom\<close> receives. \<open>wire_rx\<close> is the receive buffer of the two-wire
  library; \<open>stack_garbage\<close> is what an uninitialised local buffer holds.
\<close>

record 'd hw =
  DDRD :: byte
  DDRB :: byte
  PORTD :: byte
  PORTB :: byte
  pins :: "pin \<Rightarrow> bool"
  trace :: "event list"
  serial :: "message list"
  nand_dev :: 'd
  nand_we :: "bool \<Rightarrow> bool \<Rightarrow> bool \<Rightarrow> byte \<Rightarrow> 'd \<Rightarrow> 'd"
  nand_re :: "bool \<Rightarrow> 'd \<Rightarrow> byte \<times> 'd"
  rb_src :: "nat \<Rightarrow> bool"
  rb_reads :: nat
  millis_src :: "nat \<Rightarrow> ulong"
  millis_calls :: nat
  miso_src :: "nat \<Rightarrow> byte"
  spi_transfers :: nat
  wire_end_src :: "nat \<Rightarrow> byte"
  wire_ends :: nat
  wire_rx_src :: "nat \<Rightarrow> byte list"
  wire_requests :: nat
  wire_rx :: "byte list"
  stack_garbage :: "byte list"

section \<open>Primitives\<close>

definition emit :: "event \<Rightarrow> 'd hw \<Rightarrow> 'd hw" where
  "emit e s = s\<lparr>trace := trace s @ [e]\<rparr>"

definition println :: "message \<Rightarrow> 'd hw \<Rightarrow> 'd hw" where
  "println m s = s\<lparr>serial := serial s @ [m]\<rparr>"

definition digitalWrite :: "pin \<Rightarrow> bool \<Rightarrow> 'd hw \<Rightarrow> 'd hw" where
  "digitalWrite p v s = emit (DigitalWrite p v) (s\<lparr>pins := (pins s)(p := v)\<rparr>)"

definition delayMicroseconds :: "nat \<Rightarrow> 'd hw \<Rightarrow> 'd hw" where
  "delayMicroseconds n s = emit (DelayMicroseconds n) s"

definition delay :: "nat \<Rightarrow> 'd hw \<Rightarrow> 'd hw" where
  "delay n s = emit (Delay n) s"

text \<open>\<^verbatim>\<open>millis()\<close>: the next reading of the millisecond clock.\<close>

definition millis :: "'d hw \<Rightarrow> ulong \<times> 'd hw" where
  "millis s = (millis_src s (millis_calls s), s\<lparr>millis_calls := Suc (millis_calls s)\<rparr>)"

text \<open>\<^verbatim>\<open>digitalRead(NAND_RB_PIN)\<close>: the next sample of the ready/busy line.\<close>

definition digitalRead_RB :: "'d hw \<Rightarrow> bool \<times> 'd hw" where
  "digitalRead_RB s = (rb_src s (rb_reads s), s\<lparr>rb_reads := Suc (rb_reads s)\<rparr>)"

text \<open>
  The data bus is wired to D2..D7 (bits 2..7 of port D) and D8..D9 (bits 0..1 of port B).
  \<open>data_bus\<close> is the byte those eight output lines carry.
\<close>

definition data_bus :: "'d hw \<Rightarrow> byte" where
  "data_bus s = (drop_bit 2 (PORTD s) AND 0x3F) OR push_bit 6 (PORTB s AND 0x03)"

definition nandWriteByte :: "byte \<Rightarrow> 'd hw \<Rightarrow> 'd hw" where
  "nandWriteByte data s =
    (let s = s\<lparr>DDRD := DDRD s OR 0xFC\<rparr>;
         s = s\<lparr>DDRB := DDRB s OR 0x03\<rparr>;
         s = s\<lparr>PORTD := (PORTD s AND 0x03) OR push_bit 2 (data AND 0x3F)\<rparr>;
         s = s\<lparr>PORTB := (PORTB s AND 0xFC) OR (drop_bit 6 data AND 0x03)\<rparr>;
         s = emit (NandBusOut (data_bus s)) s;
         s = digitalWrite NAND_WE_PIN False s;
         s = delayMicroseconds 1 s;
         s = s\<lparr>nand_dev := nand_we s (pins s NAND_CE_PIN) (pins s NAND_CLE_PIN)
                              (pins s NAND_ALE_PIN) (data_bus s) (nand_dev s)\<rparr>;
         s = digitalWrite NAND_WE_PIN True s;
         s = delayMicroseconds 1 s
     in s)"

text \<open>
  Reading: with read-enable low the device drives the bus with a byte \<open>v\<close>; \<open>PIND\<close>
  then shows \<open>v\<close>'s bits 0..5 at positions 2..7 and \<open>PINB\<close> its bits 6..7 at positions
  0..1. The other bits of the two input registers belong to other pins; the source masks
  them out, the model lets them read back the port registers.
\<close>

definition nandReadByte :: "'d hw \<Rightarrow> byte \<times> 'd hw" where
  "nandReadByte s =
    (let s = s\<lparr>DDRD := DDRD s AND 0x03\<rparr>;
         s = s\<lparr>DDRB := DDRB s AND 0xFC\<rparr>;
         s = digitalWrite NAND_RE_PIN False s;
         s = delayMicroseconds 1 s;
         r = nand_re s (pins s NAND_CE_PIN) (nand_dev s);
         s = s\<lparr>nand_dev := snd r\<rparr>;
         PIND = push_bit 2 (fst r AND 0x3F) OR (PORTD s AND 0x03);
         PINB = (drop_bit 6 (fst r) AND 0x03) OR (PORTB s AND 0xFC);
         data = 0;
         data = data OR (drop_bit 2 PIND AND 0x3F);
         data = data OR push_bit 6 (PINB AND 0x03);
         s = emit (NandBusIn data) s;
         s = digitalWrite NAND_RE_PIN True s;
         s = delayMicroseconds 1 s
     in (data, s))"

text \<open>
  \<^verbatim>\<open>waitForNandReady\<close>: the loop polls the ready/busy line and gives up once
  \<^verbatim>\<open>millis() - startTime > 1000\<close>. Nothing in the loop bounds the number of polls, so
  the model is a partial function: \<open>None\<close> is a wait that never returns.
\<close>

partial_function (option) waitForNandReady_loop :: "ulong \<Rightarrow> 'd hw \<Rightarrow> 'd hw option" where
  "waitForNandReady_loop startTime s =
    (if fst (digitalRead_RB s) then Some (snd (digitalRead_RB s))
     else if fst (millis (snd (digitalRead_RB s))) - startTime > 1000
       then Some (println Timeout (snd (millis (snd (digitalRead_RB s)))))
       else waitForNandReady_loop startTime (snd (millis (snd (digitalRead_RB s)))))"

definition waitForNandReady :: "'d hw \<Rightarrow> 'd hw option" where
  "waitForNandReady s = waitForNandReady_loop (fst (millis s)) (snd (millis s))"

section \<open>NAND driver\<close>

abbreviation NAND_CMD_READ_ID :: byte where "NAND_CMD_READ_ID \<equiv> 0x90"
abbreviation NAND_CMD_READ_STATUS :: byte where "NAND_CMD_READ_STATUS \<equiv> 0x70"
abbreviation NAND_CMD_READ :: byte where "NAND_CMD_READ \<equiv> 0x00"
abbreviation NAND_CMD_READ_CONFIRM :: byte where "NAND_CMD_READ_CONFIRM \<equiv> 0x30"
abbreviation NAND_CMD_PROGRAM :: byte where "NAND_CMD_PROGRAM \<equiv> 0x80"
abbreviation NAND_CMD_PROGRAM_CONFIRM :: byte where "NAND_CMD_PROGRAM_CONFIRM \<equiv> 0x10"
abbreviation NAND_CMD_ERASE :: byte where "NAND_CMD_ERASE \<equiv> 0x60"
abbreviation NAND_CMD_ERASE_CONFIRM :: byte where "NAND_CMD_ERASE_CONFIRM \<equiv> 0xD0"
abbreviation NAND_CMD_RESET :: byte where "NAND_CMD_RESET \<equiv> 0xFF"

definition nandReset :: "'d hw \<Rightarrow> 'd hw option" where
  "nandReset s =
    (let s = digitalWrite NAND_CE_PIN False s;
         s = digitalWrite NAND_CLE_PIN True s;
         s = nandWriteByte NAND_CMD_RESET s;
         s = digitalWrite NAND_CLE_PIN False s
     in map_option
          (\<lambda>s. let s = digitalWrite NAND_CE_PIN True s
               in println NandResetComplete s)
          (waitForNandReady s))"

text \<open>\<^verbatim>\<open>Serial.println(nandReadByte(), HEX)\<close>, five times in \<^verbatim>\<open>nandReadID\<close>.\<close>

definition printIdByte :: "'d hw \<Rightarrow> 'd hw" where
  "printIdByte s = println (NandIdByte (fst (nandReadByte s))) (snd (nandReadByte s))"

definition nandReadID :: "'d hw \<Rightarrow> 'd hw" where
  "nandReadID s =
    (let s = digitalWrite NAND_CE_PIN False s;
         s = digitalWrite NAND_CLE_PIN True s;
         s = nandWriteByte NAND_CMD_READ_ID s;
         s = digitalWrite NAND_CLE_PIN False s;
         s = digitalWrite NAND_ALE_PIN True s;
         s = nandWriteByte 0x00 s;
         s = digitalWrite NAND_ALE_PIN False s;
         s = printIdByte s;
         s = printIdByte s;
         s = printIdByte s;
         s = printIdByte s;
         s = printIdByte s;
         s = digitalWrite NAND_CE_PIN True s
     in s)"

text \<open>
  \<^verbatim>\<open>hexDump(readFunc, numBytes)\<close> calls \<open>readFunc\<close> once for each
  \<open>i < numBytes\<close>, in order; the rows it prints are kept as the list of bytes read.
\<close>

primrec hexDump_loop :: "('d hw \<Rightarrow> byte \<times> 'd hw) \<Rightarrow> nat \<Rightarrow> 'd hw \<Rightarrow> byte list \<times> 'd hw" where
  "hexDump_loop readFunc 0 s = ([], s)"
| "hexDump_loop readFunc (Suc n) s =
    (let r = readFunc s;
         rest = hexDump_loop readFunc n (snd r)
     in (fst r # fst rest, snd rest))"

definition hexDump :: "('d hw \<Rightarrow> byte \<times> 'd hw) \<Rightarrow> uint \<Rightarrow> 'd hw \<Rightarrow> 'd hw" where
  "hexDump readFunc numBytes s =
    (let r = hexDump_loop readFunc (unat numBytes) s
     in println (HexDump (fst r)) (snd r))"

text \<open>
  In the two data paths \<open>page\<close> and \<open>offset\<close> are \<^verbatim>\<open>unsigned int\<close>: the quotient
  \<open>address / pageSize\<close> is computed in 32 bits and then cut to 16. The fifth address byte
  is \<^verbatim>\<open>(page >> 16) & 0xFF\<close>, a shift of a 16-bit value by its full width; it is
  modelled as the logical shift, which leaves 0.
\<close>

definition nandReadData :: "ulong \<Rightarrow> uint \<Rightarrow> 'd hw \<Rightarrow> 'd hw option" where
  "nandReadData address numBytes s =
    (let pageSize = (512 :: uint);
         page = (ucast (address div ucast pageSize) :: uint);
         offset = (ucast (address mod ucast pageSize) :: uint);
         s = digitalWrite NAND_CE_PIN False s;
         s = digitalWrite NAND_CLE_PIN True s;
         s = nandWriteByte NAND_CMD_READ s;
         s = digitalWrite NAND_CLE_PIN False s;
         s = digitalWrite NAND_ALE_PIN True s;
         s = nandWriteByte (ucast (offset AND 0xFF)) s;
         s = nandWriteByte (ucast (drop_bit 8 offset AND 0xFF)) s;
         s = nandWriteByte (ucast (page AND 0xFF)) s;
         s = nandWriteByte (ucast (drop_bit 8 page AND 0xFF)) s;
         s = nandWriteByte (ucast (drop_bit 16 page AND 0xFF)) s;
         s = digitalWrite NAND_ALE_PIN False s;
         s = digitalWrite NAND_CLE_PIN True s;
         s = nandWriteByte NAND_CMD_READ_CONFIRM s;
         s = digitalWrite NAND_CLE_PIN False s
     in map_option
          (\<lambda>s. let s = hexDump nandReadByte numBytes s
               in digitalWrite NAND_CE_PIN True s)
          (waitForNandReady s))"

text \<open>
  \<^verbatim>\<open>nandWriteData(address, data, numBytes)\<close>: \<open>data\<close> is the caller's buffer and
  \<open>numBytes\<close> the number of bytes to send from its start. The boundary test
  \<^verbatim>\<open>offset + numBytes > pageSize\<close> is 16-bit arithmetic.
\<close>

definition nandWriteData :: "ulong \<Rightarrow> byte list \<Rightarrow> uint \<Rightarrow> 'd hw \<Rightarrow> 'd hw option" where
  "nandWriteData address data numBytes s =
    (let pageSize = (512 :: uint);
         page = (ucast (address div ucast pageSize) :: uint);
         offset = (ucast (address mod ucast pageSize) :: uint)
     in if offset + numBytes > pageSize
        then Some (println BoundaryViolation s)
        else
          (let s = digitalWrite NAND_CE_PIN False s;
               s = digitalWrite NAND_CLE_PIN True s;
               s = nandWriteByte NAND_CMD_PROGRAM s;
               s = digitalWrite NAND_CLE_PIN False s;
               s = digitalWrite NAND_ALE_PIN True s;
               s = nandWriteByte (ucast (offset AND 0xFF)) s;
               s = nandWriteByte (ucast (drop_bit 8 offset AND 0xFF)) s;
               s = nandWriteByte (ucast (page AND 0xFF)) s;
               s = nandWriteByte (ucast (drop_bit 8 page AND 0xFF)) s;
               s = nandWriteByte (ucast (drop_bit 16 page AND 0xFF)) s;
               s = digitalWrite NAND_ALE_PIN False s;
               s = fold nandWriteByte (take (unat numBytes) data) s;
               s = digitalWrite NAND_CLE_PIN True s;
               s = nandWriteByte NAND_CMD_PROGRAM_CONFIRM s;
               s = digitalWrite NAND_CLE_PIN False s
           in map_option
                (\<lambda>s. let s = digitalWrite NAND_CLE_PIN True s;
                         s = nandWriteByte NAND_CMD_READ_STATUS s;
                         s = digitalWrite NAND_CLE_PIN False s;
                         r = nandReadByte s;
                         status = fst r;
                         s = snd r;
                         s = digitalWrite NAND_CE_PIN True s
                     in if status AND 0x01 \<noteq> 0
                        then println ProgramFailed s
                        else println ProgramSuccessful s)
                (waitForNandReady s)))"

text \<open>
  \<^verbatim>\<open>nandErase(option, address)\<close>: \<open>block\<close> is an \<^verbatim>\<open>unsigned int\<close> too, so the
  quotient \<open>address / 16384\<close> (up to 18 bits) is cut to 16 bits.
\<close>

definition nandErase :: "char \<Rightarrow> ulong \<Rightarrow> 'd hw \<Rightarrow> 'd hw option" where
  "nandErase option address s =
    (let s = digitalWrite NAND_CE_PIN False s;
         s = digitalWrite NAND_CLE_PIN True s;
         s = nandWriteByte NAND_CMD_ERASE s;
         s = digitalWrite NAND_CLE_PIN False s;
         s = (if option = CHR ''1'' \<or> option = CHR ''2''
              then
                (let blockSize = (16 * 1024 :: uint);
                     block = (ucast (address div ucast blockSize) :: uint);
                     s = digitalWrite NAND_ALE_PIN True s;
                     s = nandWriteByte (ucast (block AND 0xFF)) s;
                     s = nandWriteByte (ucast (drop_bit 8 block AND 0xFF)) s;
                     s = nandWriteByte (ucast (drop_bit 16 block AND 0xFF)) s;
                     s = digitalWrite NAND_ALE_PIN False s
                 in s)
              else s);
         s = digitalWrite NAND_CLE_PIN True s;
         s = nandWriteByte NAND_CMD_ERASE_CONFIRM s;
         s = digitalWrite NAND_CLE_PIN False s
     in map_option
          (\<lambda>s. let s = digitalWrite NAND_CLE_PIN True s;
                   s = nandWriteByte NAND_CMD_READ_STATUS s;
                   s = digitalWrite NAND_CLE_PIN False s;
                   r = nandReadByte s;
                   status = fst r;
                   s = snd r;
                   s = digitalWrite NAND_CE_PIN True s
               in if status AND 0x01 \<noteq> 0
                  then println EraseFailed s
                  else println EraseSuccessful s)
          (waitForNandReady s))"

definition nandReadStatus :: "'d hw \<Rightarrow> 'd hw" where
  "nandReadStatus s =
    (let s = digitalWrite NAND_CE_PIN False s;
         s = digitalWrite NAND_CLE_PIN True s;
         s = nandWriteByte NAND_CMD_READ_STATUS s;
         s = digitalWrite NAND_CLE_PIN False s;
         r = nandReadByte s;
         status = fst r;
         s = snd r;
         s = digitalWrite NAND_CE_PIN True s
     in println (NandStatus status (status AND 0x01 \<noteq> 0) (status AND 0x40 \<noteq> 0)
                   (status AND 0x80 \<noteq> 0)) s)"

section \<open>SPI flash driver\<close>

abbreviation SPI_CMD_WRITE_ENABLE :: byte where "SPI_CMD_WRITE_ENABLE \<equiv> 0x06"
abbreviation SPI_CMD_READ_STATUS :: byte where "SPI_CMD_READ_STATUS \<equiv> 0x05"
abbreviation SPI_CMD_FAST_READ :: byte where "SPI_CMD_FAST_READ \<equiv> 0x0B"
abbreviation SPI_CMD_PAGE_PROGRAM :: byte where "SPI_CMD_PAGE_PROGRAM \<equiv> 0x02"
abbreviation SPI_CMD_SECTOR_ERASE :: byte where "SPI_CMD_SECTOR_ERASE \<equiv> 0x20"
abbreviation SPI_CMD_BLOCK_ERASE_64K :: byte where "SPI_CMD_BLOCK_ERASE_64K \<equiv> 0xD8"
abbreviation SPI_CMD_CHIP_ERASE :: byte where "SPI_CMD_CHIP_ERASE \<equiv> 0xC7"
abbreviation SPI_CMD_READ_ID :: byte where "SPI_CMD_READ_ID \<equiv> 0x9F"

text \<open>\<^verbatim>\<open>SPI.transfer(out)\<close> returns the byte clocked in on MISO.\<close>

definition spiTransfer :: "byte \<Rightarrow> 'd hw \<Rightarrow> byte \<times> 'd hw" where
  "spiTransfer out s =
    (miso_src s (spi_transfers s),
     emit (SpiTransfer out (miso_src s (spi_transfers s)))
       (s\<lparr>spi_transfers := Suc (spi_transfers s)\<rparr>))"

text \<open>A transfer whose result the source drops.\<close>

definition spiSend :: "byte \<Rightarrow> 'd hw \<Rightarrow> 'd hw" where
  "spiSend out s = snd (spiTransfer out s)"

definition identifySPIFlash :: "byte \<Rightarrow> byte \<Rightarrow> byte \<Rightarrow> string" where
  "identifySPIFlash manufacturerID deviceID1 deviceID2 =
    (if manufacturerID = 0x01 then ''Spansion/Cypress ''
     else if manufacturerID = 0x20 then ''Micron/ST ''
     else if manufacturerID = 0xEF then
       ''Winbond '' @
       (if deviceID1 = 0x40 then
          (if deviceID2 = 0x14 then ''W25Q80 (8Mbit)''
           else if deviceID2 = 0x15 then ''W25Q16 (16Mbit)''
           else if deviceID2 = 0x16 then ''W25Q32 (32Mbit)''
           else if deviceID2 = 0x17 then ''W25Q64 (64Mbit)''
           else if deviceID2 = 0x18 then ''W25Q128 (128Mbit)''
           else ''Unknown W25Q series'')
        else ''Unknown model'')
     else if manufacturerID = 0xC2 then ''Macronix ''
     else if manufacturerID = 0xBF then ''SST ''
     else ''Unknown manufacturer'')"

definition spiReadID :: "'d hw \<Rightarrow> 'd hw" where
  "spiReadID s =
    (let s = digitalWrite SPI_CS_PIN False s;
         s = spiSend SPI_CMD_READ_ID s;
         r = spiTransfer 0 s; manufacturerID = fst r; s = snd r;
         r = spiTransfer 0 s; deviceID1 = fst r; s = snd r;
         r = spiTransfer 0 s; deviceID2 = fst r; s = snd r;
         s = digitalWrite SPI_CS_PIN True s;
         s = println (SpiId manufacturerID deviceID1 deviceID2) s
     in println (DeviceName (identifySPIFlash manufacturerID deviceID1 deviceID2)) s)"

definition spiReadData :: "ulong \<Rightarrow> uint \<Rightarrow> 'd hw \<Rightarrow> 'd hw" where
  "spiReadData address numBytes s =
    (let s = digitalWrite SPI_CS_PIN False s;
         s = spiSend SPI_CMD_FAST_READ s;
         s = spiSend (ucast (drop_bit 16 address AND 0xFF)) s;
         s = spiSend (ucast (drop_bit 8 address AND 0xFF)) s;
         s = spiSend (ucast (address AND 0xFF)) s;
         s = spiSend 0 s;
         r = hexDump_loop (spiTransfer 0) (unat numBytes) s;
         s = println (HexDump (fst r)) (snd r)
     in digitalWrite SPI_CS_PIN True s)"

text \<open>
  \<^verbatim>\<open>waitForSpiReady\<close> reads the status register once and returns whether the
  write-in-progress bit is set. It does not loop; looping is left to the caller.
\<close>

definition waitForSpiReady :: "'d hw \<Rightarrow> bool \<times> 'd hw" where
  "waitForSpiReady s =
    (let s = digitalWrite SPI_CS_PIN False s;
         s = spiSend SPI_CMD_READ_STATUS s;
         r = spiTransfer 0 s;
         status = fst r;
         s = snd r;
         s = digitalWrite SPI_CS_PIN True s
     in (status AND 0x01 \<noteq> 0, s))"

text \<open>
  \<^verbatim>\<open>spiWritePage(address, data, numBytes)\<close> sends \<open>data[0] .. data[numBytes - 1]\<close>.
  After deselecting it calls \<^verbatim>\<open>waitForSpiReady()\<close> as a statement and drops the result.
\<close>

definition spiWritePage :: "ulong \<Rightarrow> byte list \<Rightarrow> uint \<Rightarrow> 'd hw \<Rightarrow> 'd hw" where
  "spiWritePage address data numBytes s =
    (let s = digitalWrite SPI_CS_PIN False s;
         s = spiSend SPI_CMD_WRITE_ENABLE s;
         s = digitalWrite SPI_CS_PIN True s;
         s = delay 1 s;
         s = digitalWrite SPI_CS_PIN False s;
         s = spiSend SPI_CMD_PAGE_PROGRAM s;
         s = spiSend (ucast (drop_bit 16 address AND 0xFF)) s;
         s = spiSend (ucast (drop_bit 8 address AND 0xFF)) s;
         s = spiSend (ucast (address AND 0xFF)) s;
         s = fold spiSend (take (unat numBytes) data) s;
         s = digitalWrite SPI_CS_PIN True s;
         s = snd (waitForSpiReady s)
     in println WriteComplete s)"

text \<open>
  \<^verbatim>\<open>spiWriteData\<close>: \<open>data + firstPageBytes\<close> is the buffer from index
  \<open>firstPageBytes\<close> on; \<open>address + firstPageBytes\<close> is 32-bit, the other sums 16-bit.
\<close>

definition spiWriteData :: "ulong \<Rightarrow> byte list \<Rightarrow> uint \<Rightarrow> 'd hw \<Rightarrow> 'd hw" where
  "spiWriteData address data numBytes s =
    (let pageSize = (256 :: uint);
         offset = (ucast (address mod ucast pageSize) :: uint)
     in if offset + numBytes > pageSize
        then
          (let s = println BoundaryWarning s;
               firstPageBytes = pageSize - offset;
               s = spiWritePage address data firstPageBytes s;
               s = spiWritePage (address + ucast firstPageBytes)
                     (drop (unat firstPageBytes) data) (numBytes - firstPageBytes) s
           in s)
        else spiWritePage address data numBytes s)"

text \<open>
  The erase path does poll: \<^verbatim>\<open>while (waitForSpiReady()) { ... }\<close>, with a progress dot
  every 500 ms. The loop has no bound.
\<close>

partial_function (option) spiErase_loop :: "ulong \<Rightarrow> 'd hw \<Rightarrow> 'd hw option" where
  "spiErase_loop startTime s =
    (if fst (waitForSpiReady s)
     then
       (if fst (millis (snd (waitForSpiReady s))) - startTime > 500
        then spiErase_loop
               (fst (millis (println ProgressDot (snd (millis (snd (waitForSpiReady s)))))))
               (snd (millis (println ProgressDot (snd (millis (snd (waitForSpiReady s)))))))
        else spiErase_loop startTime (snd (millis (snd (waitForSpiReady s)))))
     else Some (snd (waitForSpiReady s)))"

definition spiErase :: "char \<Rightarrow> ulong \<Rightarrow> 'd hw \<Rightarrow> 'd hw option" where
  "spiErase option address s =
    (let s = digitalWrite SPI_CS_PIN False s;
         s = spiSend SPI_CMD_WRITE_ENABLE s;
         s = digitalWrite SPI_CS_PIN True s;
         s = delay 1 s;
         s = digitalWrite SPI_CS_PIN False s;
         s = (if option = CHR ''1'' then
                (let s = spiSend SPI_CMD_SECTOR_ERASE s;
                     s = spiSend (ucast (drop_bit 16 address AND 0xFF)) s;
                     s = spiSend (ucast (drop_bit 8 address AND 0xFF)) s;
                     s = spiSend (ucast (address AND 0xFF)) s
                 in s)
              else if option = CHR ''2'' then
                (let s = spiSend SPI_CMD_BLOCK_ERASE_64K s;
                     s = spiSend (ucast (drop_bit 16 address AND 0xFF)) s;
                     s = spiSend (ucast (drop_bit 8 address AND 0xFF)) s;
                     s = spiSend (ucast (address AND 0xFF)) s
                 in s)
              else if option = CHR ''3'' then spiSend SPI_CMD_CHIP_ERASE s
              else s);
         s = digitalWrite SPI_CS_PIN True s
     in map_option (println EraseComplete) (spiErase_loop (fst (millis s)) (snd (millis s))))"

definition spiReadStatus :: "'d hw \<Rightarrow> 'd hw" where
  "spiReadStatus s =
    (let s = digitalWrite SPI_CS_PIN False s;
         s = spiSend SPI_CMD_READ_STATUS s;
         r = spiTransfer 0 s;
         status = fst r;
         s = snd r;
         s = digitalWrite SPI_CS_PIN True s
     in println (SpiStatus status (status AND 0x01 \<noteq> 0) (status AND 0x02 \<noteq> 0)
                   (drop_bit 2 status AND 0x0F) (status AND 0x80 \<noteq> 0)) s)"

section \<open>I2C EEPROM driver\<close>

definition wireBeginTransmission :: "byte \<Rightarrow> 'd hw \<Rightarrow> 'd hw" where
  "wireBeginTransmission a s = emit (WireBegin a) s"

definition wireWrite :: "byte \<Rightarrow> 'd hw \<Rightarrow> 'd hw" where
  "wireWrite b s = emit (WireWrite b) s"

text \<open>\<^verbatim>\<open>Wire.endTransmission()\<close> sends what was queued and returns the bus result, 0 for an
  acknowledged transfer.\<close>

definition wireEndTransmission :: "'d hw \<Rightarrow> byte \<times> 'd hw" where
  "wireEndTransmission s =
    (wire_end_src s (wire_ends s),
     emit (WireEnd (wire_end_src s (wire_ends s))) (s\<lparr>wire_ends := Suc (wire_ends s)\<rparr>))"

definition wireRequestFrom :: "byte \<Rightarrow> uint \<Rightarrow> 'd hw \<Rightarrow> 'd hw" where
  "wireRequestFrom a quantity s =
    emit (WireRequest a quantity)
      (s\<lparr>wire_rx := take (unat quantity) (wire_rx_src s (wire_requests s)),
         wire_requests := Suc (wire_requests s)\<rparr>)"

definition wireAvailable :: "'d hw \<Rightarrow> bool" where
  "wireAvailable s = (wire_rx s \<noteq> [])"

definition wireRead :: "'d hw \<Rightarrow> byte \<times> 'd hw" where
  "wireRead s =
    (case wire_rx s of
       [] \<Rightarrow> (0xFF, s)
     | b # bs \<Rightarrow> (b, emit (WireRead b) (s\<lparr>wire_rx := bs\<rparr>)))"

text \<open>One probe of \<^verbatim>\<open>i2cDetect\<close>; the second component counts the devices found.\<close>

definition i2cDetect_probe :: "byte \<Rightarrow> 'd hw \<times> byte \<Rightarrow> 'd hw \<times> byte" where
  "i2cDetect_probe addr sc =
    (let s = wireBeginTransmission addr (fst sc);
         r = wireEndTransmission s;
         error = fst r;
         s = snd r
     in if error = 0
        then (println (I2cDeviceFound addr (addr \<ge> 0x50 \<and> addr \<le> 0x57)) s, snd sc + 1)
        else (s, snd sc))"

definition i2cDetect :: "'d hw \<Rightarrow> 'd hw" where
  "i2cDetect s =
    (let r = fold i2cDetect_probe (map of_nat [0x08 ..< 0x78]) (s, 0)
     in if snd r = 0 then println NoI2cDevices (fst r) else fst r)"

text \<open>
  The inner loop of \<^verbatim>\<open>i2cReadData\<close>:
  \<^verbatim>\<open>for (j = 0; j < bytesToRead && Wire.available(); j++) buffer[j] = Wire.read();\<close>
  The first argument counts the iterations that are left.
\<close>

primrec wireReadInto :: "nat \<Rightarrow> nat \<Rightarrow> byte list \<Rightarrow> 'd hw \<Rightarrow> byte list \<times> 'd hw" where
  "wireReadInto 0 j buffer s = (buffer, s)"
| "wireReadInto (Suc k) j buffer s =
    (if wireAvailable s
     then wireReadInto k (Suc j) (buffer[j := fst (wireRead s)]) (snd (wireRead s))
     else (buffer, s))"

text \<open>One chunk of \<^verbatim>\<open>i2cReadData\<close>: the new buffer, the bytes dumped, the new state.\<close>

definition i2cReadChunk ::
  "byte \<Rightarrow> ulong \<Rightarrow> bool \<Rightarrow> uint \<Rightarrow> uint \<Rightarrow> byte list \<Rightarrow> 'd hw \<Rightarrow> byte list \<times> byte list \<times> 'd hw" where
  "i2cReadChunk i2cAddress address use16bitAddr numBytes i buffer s =
    (let chunkSize = (16 :: uint);
         bytesToRead = min chunkSize (numBytes - i);
         currentAddr = address + ucast i;
         s = wireBeginTransmission i2cAddress s;
         s = (if use16bitAddr then wireWrite (ucast (drop_bit 8 currentAddr AND 0xFF)) s else s);
         s = wireWrite (ucast (currentAddr AND 0xFF)) s;
         s = snd (wireEndTransmission s);
         s = wireRequestFrom i2cAddress bytesToRead s;
         r = wireReadInto (unat bytesToRead) 0 buffer s
     in (fst r, take (unat bytesToRead) (fst r), snd r))"

text \<open>
  The chunk loop \<^verbatim>\<open>for (unsigned int i = 0; i < numBytes; i += chunkSize)\<close> counts in
  16 bits, so \<open>i + 16\<close> can wrap before it reaches \<open>numBytes\<close>: a partial function.
\<close>

partial_function (option) i2cReadData_loop ::
  "byte \<Rightarrow> ulong \<Rightarrow> bool \<Rightarrow> uint \<Rightarrow> uint \<Rightarrow> byte list \<Rightarrow> byte list \<Rightarrow> 'd hw \<Rightarrow> 'd hw option" where
  "i2cReadData_loop i2cAddress address use16bitAddr numBytes i buffer dumped s =
    (if i < numBytes
     then i2cReadData_loop i2cAddress address use16bitAddr numBytes (i + 16)
            (fst (i2cReadChunk i2cAddress address use16bitAddr numBytes i buffer s))
            (dumped @ fst (snd (i2cReadChunk i2cAddress address use16bitAddr numBytes i buffer s)))
            (snd (snd (i2cReadChunk i2cAddress address use16bitAddr numBytes i buffer s)))
     else Some (println (HexDump dumped) s))"

definition i2cReadData :: "byte \<Rightarrow> ulong \<Rightarrow> uint \<Rightarrow> 'd hw \<Rightarrow> 'd hw option" where
  "i2cReadData i2cAddress address numBytes s =
    (let s = wireBeginTransmission i2cAddress s;
         r = wireEndTransmission s;
         error = fst r;
         s = snd r
     in if error \<noteq> 0
        then Some (println (BusAbsent i2cAddress) s)
        else i2cReadData_loop i2cAddress address (address > 0xFF) numBytes 0
               (take 16 (stack_garbage s @ replicate 16 0)) [] s)"

text \<open>
  The chunk loop of \<^verbatim>\<open>i2cWriteData\<close>. \<open>pageOffset\<close>, \<open>bytesToWrite\<close> and
  \<open>bytesWritten\<close> are \<^verbatim>\<open>unsigned int\<close>, \<open>currentAddr\<close> is \<^verbatim>\<open>unsigned long\<close>.
\<close>

function i2cWriteData_loop ::
  "byte \<Rightarrow> ulong \<Rightarrow> bool \<Rightarrow> byte list \<Rightarrow> uint \<Rightarrow> uint \<Rightarrow> 'd hw \<Rightarrow> 'd hw" where
  "i2cWriteData_loop i2cAddress address use16bitAddr data numBytes bytesWritten s =
    (if bytesWritten < numBytes
     then
       (let pageSize = (8 :: uint);
            currentAddr = address + ucast bytesWritten;
            pageOffset = (ucast (currentAddr mod ucast pageSize) :: uint);
            bytesToWrite = min (pageSize - pageOffset) (numBytes - bytesWritten);
            s = wireBeginTransmission i2cAddress s;
            s = (if use16bitAddr
                 then wireWrite (ucast (drop_bit 8 currentAddr AND 0xFF)) s else s);
            s = wireWrite (ucast (currentAddr AND 0xFF)) s;
            s = fold wireWrite (take (unat bytesToWrite) (drop (unat bytesWritten) data)) s;
            s = snd (wireEndTransmission s);
            s = delay 5 s
        in i2cWriteData_loop i2cAddress address use16bitAddr data numBytes
             (bytesWritten + bytesToWrite) s)
     else s)"
  by pat_completeness auto
termination
  apply (relation "measure (\<lambda>(_, _, _, _, numBytes, bytesWritten, _). unat numBytes - unat bytesWritten)")
   apply simp
  apply simp
  subgoal premises prems for i2cAddress address use16bitAddr data numBytes bytesWritten
  proof -
    note lt = prems(1)
    define po :: uint where "po = ucast ((address + ucast bytesWritten) mod 8)"
    have "unat ((address + ucast bytesWritten) mod 8) = unat (address + ucast bytesWritten) mod 8"
      by (simp add: unat_mod)
    hence "unat ((address + ucast bytesWritten) mod 8) < 8"
      by simp
    hence po: "unat po < 8"
      by (simp add: po_def unsigned_ucast_eq take_bit_eq_mod)
    have a: "unat (8 - po) = 8 - unat po"
      using po by (simp add: unat_sub word_le_nat_alt)
    have b: "unat (numBytes - bytesWritten) = unat numBytes - unat bytesWritten"
      using lt by (simp add: unat_sub word_le_nat_alt word_less_nat_alt)
    have m: "unat (min (8 - po) (numBytes - bytesWritten))
               = min (8 - unat po) (unat numBytes - unat bytesWritten)"
      by (simp add: min_def word_le_nat_alt a b)
    have lt': "unat bytesWritten < unat numBytes"
      using lt by (simp add: word_less_nat_alt)
    have pos: "0 < unat (min (8 - po) (numBytes - bytesWritten))"
      using lt' po by (simp add: m)
    have le: "unat bytesWritten + unat (min (8 - po) (numBytes - bytesWritten)) \<le> unat numBytes"
      using lt' po by (simp add: m)
    hence "unat bytesWritten + unat (min (8 - po) (numBytes - bytesWritten)) < 2 ^ LENGTH(16)"
      using unsigned_less [of numBytes, where ?'a = nat] by linarith
    hence "unat (bytesWritten + min (8 - po) (numBytes - bytesWritten))
             = unat bytesWritten + unat (min (8 - po) (numBytes - bytesWritten))"
      by (simp only: unat_add_lem)
    with pos le show ?thesis
      unfolding po_def by arith
  qed
  done

definition i2cWriteData :: "byte \<Rightarrow> ulong \<Rightarrow> byte list \<Rightarrow> uint \<Rightarrow> 'd hw \<Rightarrow> 'd hw" where
  "i2cWriteData i2cAddress address data numBytes s =
    (let s = wireBeginTransmission i2cAddress s;
         r = wireEndTransmission s;
         error = fst r;
         s = snd r
     in if error \<noteq> 0
        then println (BusAbsent i2cAddress) s
        else println WriteComplete
               (i2cWriteData_loop i2cAddress address (address > 0xFF) data numBytes 0 s))"

text \<open>
  The two fill passes of \<^verbatim>\<open>i2cErase\<close>:
  \<^verbatim>\<open>for (unsigned int i = 0; i < bound; i += 8) { i2cWriteData(base + i, eraseData, 8); ... }\<close>
  with a dot every \<open>dotEvery\<close> bytes. The bounds are the constants 32768, 256 and 4096, so
  the 16-bit counter never wraps and is counted here as a natural number.
\<close>

function i2cErase_loop :: "byte \<Rightarrow> ulong \<Rightarrow> nat \<Rightarrow> nat \<Rightarrow> nat \<Rightarrow> 'd hw \<Rightarrow> 'd hw" where
  "i2cErase_loop i2cAddress base bound dotEvery i s =
    (if i < bound
     then
       (let s = i2cWriteData i2cAddress (base + of_nat i) (replicate 8 0xFF) 8 s;
            s = (if i mod dotEvery = 0 then println ProgressDot s else s)
        in i2cErase_loop i2cAddress base bound dotEvery (i + 8) s)
     else s)"
  by pat_completeness auto
termination
  by (relation "measure (\<lambda>(_, _, bound, _, i, _). bound - i)") auto

text \<open>\<^verbatim>\<open>unsigned int maxSize = 32 * 1024\<close> is 32768.\<close>

definition i2cErase :: "byte \<Rightarrow> char \<Rightarrow> ulong \<Rightarrow> 'd hw \<Rightarrow> 'd hw" where
  "i2cErase i2cAddress option address s =
    (if option = CHR ''3''
     then println EraseComplete (i2cErase_loop i2cAddress 0 (32 * 1024) 256 0 s)
     else
       (let eraseSize = (if option = CHR ''1'' then 256 else 4096)
        in println EraseComplete (i2cErase_loop i2cAddress address eraseSize 64 0 s)))"

definition i2cReadStatus :: "byte \<Rightarrow> 'd hw \<Rightarrow> 'd hw" where
  "i2cReadStatus i2cAddress s =
    (let s = wireBeginTransmission i2cAddress s;
         r = wireEndTransmission s;
         error = fst r;
         s = snd r;
         s = println (I2cPresent (error = 0)) s
     in if error = 0
        then
          (let s = wireBeginTransmission i2cAddress s;
               s = wireWrite 0 s;
               r = wireEndTransmission s;
               error = fst r;
               s = snd r
           in println (I2cReady (error = 0)) s)
        else s)"

section \<open>The session and its operations\<close>

text \<open>
  The two globals of the sketch, \<^verbatim>\<open>currentMemoryType\<close> and \<^verbatim>\<open>i2cAddress\<close>, and the
  hardware. The drivers above only read \<^verbatim>\<open>i2cAddress\<close>, so it is passed to them as an
  argument; \<^verbatim>\<open>setMemoryType\<close> is the only assignment to \<^verbatim>\<open>currentMemoryType\<close> and
  \<^verbatim>\<open>setI2CAddress\<close> the only one to \<^verbatim>\<open>i2cAddress\<close>.
\<close>

record 'd session =
  currentMemoryType :: MemoryType
  i2cAddress :: byte
  board :: "'d hw"

definition on_board :: "('d hw \<Rightarrow> 'd hw) \<Rightarrow> 'd session \<Rightarrow> 'd session" where
  "on_board f s = s\<lparr>board := f (board s)\<rparr>"

definition on_board_opt :: "('d hw \<Rightarrow> 'd hw option) \<Rightarrow> 'd session \<Rightarrow> 'd session option" where
  "on_board_opt f s = map_option (\<lambda>b. s\<lparr>board := b\<rparr>) (f (board s))"

text \<open>\<^verbatim>\<open>setup()\<close>: chip selects released, NAND control lines in their safe state.\<close>

definition setup_hw :: "'d hw \<Rightarrow> 'd hw" where
  "setup_hw s =
    (let s = digitalWrite SPI_CS_PIN True s;
         s = digitalWrite NAND_CLE_PIN False s;
         s = digitalWrite NAND_ALE_PIN False s;
         s = digitalWrite NAND_WE_PIN True s;
         s = digitalWrite NAND_RE_PIN True s;
         s = digitalWrite NAND_CE_PIN True s
     in s)"

text \<open>The globals as initialised, on a board that has run \<^verbatim>\<open>setup()\<close>.\<close>

definition power_on :: "'d hw \<Rightarrow> 'd session" where
  "power_on b = \<lparr>currentMemoryType = MEM_UNKNOWN, i2cAddress = 0x50, board = setup_hw b\<rparr>"

definition setMemoryType :: "MemoryType \<Rightarrow> 'd session \<Rightarrow> 'd session option" where
  "setMemoryType type s =
    (let s = s\<lparr>currentMemoryType := type\<rparr>
     in case type of
          MEM_NAND_FLASH \<Rightarrow> on_board_opt nandReset (on_board (println NandModeSelected) s)
        | MEM_SPI_FLASH \<Rightarrow> Some (on_board (println SpiModeSelected) s)
        | MEM_I2C_EEPROM \<Rightarrow> Some (on_board (println (I2cModeSelected (i2cAddress s))) s)
        | MEM_UNKNOWN \<Rightarrow> Some (on_board (println UnknownMemoryType) s))"

definition readDeviceID :: "'d session \<Rightarrow> 'd session option" where
  "readDeviceID s =
    (if currentMemoryType s = MEM_UNKNOWN
     then Some (on_board (println NoTechnologySelected) s)
     else case currentMemoryType s of
            MEM_NAND_FLASH \<Rightarrow> Some (on_board nandReadID s)
          | MEM_SPI_FLASH \<Rightarrow> Some (on_board spiReadID s)
          | MEM_I2C_EEPROM \<Rightarrow> Some (on_board i2cDetect s)
          | MEM_UNKNOWN \<Rightarrow> Some (on_board (println UnknownMemoryType) s))"

text \<open>
  \<^verbatim>\<open>readData()\<close>: \<open>startAddr\<close> and \<open>numBytes\<close> are what \<^verbatim>\<open>readHexValue()\<close> and
  \<^verbatim>\<open>readDecValue()\<close> return; they are read only after the guard.
\<close>

definition readData :: "ulong \<Rightarrow> uint \<Rightarrow> 'd session \<Rightarrow> 'd session option" where
  "readData startAddr numBytes s =
    (if currentMemoryType s = MEM_UNKNOWN
     then Some (on_board (println NoTechnologySelected) s)
     else
       (let s = (if numBytes > 256 then on_board (println LimitWarning) s else s);
            numBytes = (if numBytes > 256 then 256 else numBytes)
        in case currentMemoryType s of
             MEM_NAND_FLASH \<Rightarrow> on_board_opt (nandReadData startAddr numBytes) s
           | MEM_SPI_FLASH \<Rightarrow> Some (on_board (spiReadData startAddr numBytes) s)
           | MEM_I2C_EEPROM \<Rightarrow> on_board_opt (i2cReadData (i2cAddress s) startAddr numBytes) s
           | MEM_UNKNOWN \<Rightarrow> Some (on_board (println UnknownMemoryType) s)))"

text \<open>
  \<^verbatim>\<open>writeData()\<close>: \<open>tokens\<close> are the hex bytes of the input line; the parse loop
  \<^verbatim>\<open>while (token != NULL && numBytes < 32)\<close> keeps the first 32.
\<close>

definition writeData :: "ulong \<Rightarrow> byte list \<Rightarrow> 'd session \<Rightarrow> 'd session option" where
  "writeData startAddr tokens s =
    (if currentMemoryType s = MEM_UNKNOWN
     then Some (on_board (println NoTechnologySelected) s)
     else
       (let data = take 32 tokens;
            numBytes = (of_nat (length data) :: uint)
        in case currentMemoryType s of
             MEM_NAND_FLASH \<Rightarrow> on_board_opt (nandWriteData startAddr data numBytes) s
           | MEM_SPI_FLASH \<Rightarrow> Some (on_board (spiWriteData startAddr data numBytes) s)
           | MEM_I2C_EEPROM \<Rightarrow>
               Some (on_board (i2cWriteData (i2cAddress s) startAddr data numBytes) s)
           | MEM_UNKNOWN \<Rightarrow> Some (on_board (println UnknownMemoryType) s)))"

text \<open>
  \<^verbatim>\<open>eraseMemory()\<close>: \<open>option\<close> is the character read, \<open>entered\<close> the address typed
  (asked for only for options 1 and 2, otherwise the address stays 0), \<open>confirmation\<close> the
  line typed when option 3 asks for it.
\<close>

definition eraseMemory :: "char \<Rightarrow> ulong \<Rightarrow> string \<Rightarrow> 'd session \<Rightarrow> 'd session option" where
  "eraseMemory option entered confirmation s =
    (if currentMemoryType s = MEM_UNKNOWN
     then Some (on_board (println NoTechnologySelected) s)
     else
       (let address = (if option = CHR ''1'' \<or> option = CHR ''2'' then entered else 0)
        in if option \<noteq> CHR ''1'' \<and> option \<noteq> CHR ''2'' \<and> option \<noteq> CHR ''3''
           then Some (on_board (println InvalidOption) s)
           else if option = CHR ''3'' \<and> confirmation \<noteq> ''YES''
           then Some (on_board (println EraseAborted) s)
           else case currentMemoryType s of
                  MEM_NAND_FLASH \<Rightarrow> on_board_opt (nandErase option address) s
                | MEM_SPI_FLASH \<Rightarrow> on_board_opt (spiErase option address) s
                | MEM_I2C_EEPROM \<Rightarrow> Some (on_board (i2cErase (i2cAddress s) option address) s)
                | MEM_UNKNOWN \<Rightarrow> Some (on_board (println UnknownMemoryType) s)))"

definition readStatus :: "'d session \<Rightarrow> 'd session option" where
  "readStatus s =
    (if currentMemoryType s = MEM_UNKNOWN
     then Some (on_board (println NoTechnologySelected) s)
     else case currentMemoryType s of
            MEM_NAND_FLASH \<Rightarrow> Some (on_board nandReadStatus s)
          | MEM_SPI_FLASH \<Rightarrow> Some (on_board spiReadStatus s)
          | MEM_I2C_EEPROM \<Rightarrow> Some (on_board (i2cReadStatus (i2cAddress s)) s)
          | MEM_UNKNOWN \<Rightarrow> Some (on_board (println UnknownMemoryType) s))"

text \<open>
  \<^verbatim>\<open>setI2CAddress()\<close>: \<open>newAddress\<close> is the \<^verbatim>\<open>byte\<close> the typed value was stored in.
  The function does not look at \<^verbatim>\<open>currentMemoryType\<close>.
\<close>

definition setI2CAddress :: "byte \<Rightarrow> 'd session \<Rightarrow> 'd session option" where
  "setI2CAddress newAddress s =
    (if newAddress \<ge> 0x08 \<and> newAddress \<le> 0x77
     then Some (on_board (println (I2cAddressSet newAddress)) (s\<lparr>i2cAddress := newAddress\<rparr>))
     else Some (on_board (println InvalidI2cAddress) s))"

text \<open>
  \<^verbatim>\<open>handleCommand\<close>: a command is the character typed together with the values the
  called function goes on to read.
\<close>

datatype command =
    SelectNand | SelectSpi | SelectI2c
  | ReadDeviceID
  | ReadData ulong uint
  | WriteData ulong "byte list"
  | EraseMemory char ulong string
  | ReadStatus
  | SetI2CAddress byte
  | ShowMenu

fun handleCommand :: "command \<Rightarrow> 'd session \<Rightarrow> 'd session option" where
  "handleCommand SelectNand s = setMemoryType MEM_NAND_FLASH s"
| "handleCommand SelectSpi s = setMemoryType MEM_SPI_FLASH s"
| "handleCommand SelectI2c s = setMemoryType MEM_I2C_EEPROM s"
| "handleCommand ReadDeviceID s = readDeviceID s"
| "handleCommand (ReadData a n) s = readData a n s"
| "handleCommand (WriteData a ts) s = writeData a ts s"
| "handleCommand (EraseMemory opt a c) s = eraseMemory opt a c s"
| "handleCommand ReadStatus s = readStatus s"
| "handleCommand (SetI2CAddress a) s = setI2CAddress a s"
| "handleCommand ShowMenu s = Some s"

text \<open>\<^verbatim>\<open>loop()\<close> over a sequence of commands; \<open>None\<close> if one of them never returns.\<close>

fun run :: "command list \<Rightarrow> 'd session \<Rightarrow> 'd session option" where
  "run [] s = Some s"
| "run (c # cs) s = (case handleCommand c s of None \<Rightarrow> None | Some s' \<Rightarrow> run cs s')"

section \<open>Reading the bus traces\<close>

text \<open>The events an operation added to the trace.\<close>

definition emitted :: "'d hw \<Rightarrow> 'd hw \<Rightarrow> event list" where
  "emitted s s' = drop (length (trace s)) (trace s')"

text \<open>
  The NAND bus cycles in a trace, as the device latches them: a byte written while the
  command latch is high is a command, while the address latch is high an address byte,
  otherwise data; a byte read is data out. The two flags are the current levels of CLE and
  ALE.
\<close>

datatype cycle = Command byte | Address byte | DataIn byte | DataOut byte

fun nand_cycles :: "bool \<Rightarrow> bool \<Rightarrow> event list \<Rightarrow> cycle list" where
  "nand_cycles cle ale [] = []"
| "nand_cycles cle ale (DigitalWrite p v # es) =
    (if p = NAND_CLE_PIN then nand_cycles v ale es
     else if p = NAND_ALE_PIN then nand_cycles cle v es
     else nand_cycles cle ale es)"
| "nand_cycles cle ale (NandBusOut b # es) =
    (if cle then Command b else if ale then Address b else DataIn b) # nand_cycles cle ale es"
| "nand_cycles cle ale (NandBusIn b # es) = DataOut b # nand_cycles cle ale es"
| "nand_cycles cle ale (e # es) = nand_cycles cle ale es"

fun address_bytes :: "cycle list \<Rightarrow> byte list" where
  "address_bytes [] = []"
| "address_bytes (Address b # cs) = b # address_bytes cs"
| "address_bytes (c # cs) = address_bytes cs"

text \<open>
  The SPI transactions in a trace: the bytes sent between a falling and the next rising
  edge of chip select. The first argument is the transaction in progress, if any.
\<close>

fun spi_transactions :: "byte list option \<Rightarrow> event list \<Rightarrow> byte list list" where
  "spi_transactions cur [] = []"
| "spi_transactions cur (DigitalWrite p v # es) =
    (if p = SPI_CS_PIN
     then (if v then (case cur of None \<Rightarrow> spi_transactions None es
                               | Some bs \<Rightarrow> bs # spi_transactions None es)
           else spi_transactions (Some []) es)
     else spi_transactions cur es)"
| "spi_transactions cur (SpiTransfer out inp # es) =
    (case cur of None \<Rightarrow> spi_transactions None es
               | Some bs \<Rightarrow> spi_transactions (Some (bs @ [out])) es)"
| "spi_transactions cur (e # es) = spi_transactions cur es"

text \<open>The page-program transactions: command byte, three address bytes, then the data.\<close>

definition page_programs :: "event list \<Rightarrow> byte list list" where
  "page_programs es = filter (\<lambda>bs. bs \<noteq> [] \<and> hd bs = SPI_CMD_PAGE_PROGRAM) (spi_transactions None es)"

text \<open>The status reads: transactions that start with the read-status command.\<close>

definition status_reads :: "event list \<Rightarrow> byte list list" where
  "status_reads es = filter (\<lambda>bs. bs \<noteq> [] \<and> hd bs = SPI_CMD_READ_STATUS) (spi_transactions None es)"

text \<open>
  The two-wire write transactions in a trace: for each \<^verbatim>\<open>beginTransmission\<close> ..
  \<^verbatim>\<open>endTransmission\<close> pair the device address and the bytes queued in between.
\<close>

fun wire_transactions :: "(byte \<times> byte list) option \<Rightarrow> event list \<Rightarrow> (byte \<times> byte list) list" where
  "wire_transactions cur [] = []"
| "wire_transactions cur (WireBegin a # es) = wire_transactions (Some (a, [])) es"
| "wire_transactions cur (WireWrite b # es) =
    (case cur of None \<Rightarrow> wire_transactions None es
               | Some (a, bs) \<Rightarrow> wire_transactions (Some (a, bs @ [b])) es)"
| "wire_transactions cur (WireEnd r # es) =
    (case cur of None \<Rightarrow> wire_transactions None es
               | Some t \<Rightarrow> t # wire_transactions None es)"
| "wire_transactions cur (e # es) = wire_transactions cur es"

text \<open>The device addresses a trace talks to on the two-wire bus.\<close>

fun wire_targets :: "event list \<Rightarrow> byte list" where
  "wire_targets [] = []"
| "wire_targets (WireBegin a # es) = a # wire_targets es"
| "wire_targets (WireRequest a n # es) = a # wire_targets es"
| "wire_targets (e # es) = wire_targets es"

section \<open>A test bench\<close>

text \<open>
  An empty socket, for concrete runs: nothing drives the data bus or MISO (both read
  0xFF), the ready/busy input reads high, no two-wire device acknowledges (result 2), and
  the clock advances by 500 ms from one reading to the next.
\<close>

definition bench :: "unit hw" where
  "bench =
    \<lparr>DDRD = 0, DDRB = 0, PORTD = 0, PORTB = 0, pins = (\<lambda>p. False), trace = [], serial = [],
     nand_dev = (), nand_we = (\<lambda>ce cle ale b d. d), nand_re = (\<lambda>ce d. (0xFF, d)),
     rb_src = (\<lambda>n. True), rb_reads = 0,
     millis_src = (\<lambda>n. of_nat (500 * n)), millis_calls = 0,
     miso_src = (\<lambda>n. 0xFF), spi_transfers = 0,
     wire_end_src = (\<lambda>n. 2), wire_ends = 0,
     wire_rx_src = (\<lambda>n. []), wire_requests = 0, wire_rx = [], stack_garbage = []\<rparr>"

text \<open>The events of a run of transfers whose results are dropped: byte \<open>b\<close> goes out, the
  next MISO byte comes in.\<close>

fun spi_burst :: "(nat \<Rightarrow> byte) \<Rightarrow> nat \<Rightarrow> byte list \<Rightarrow> event list" where
  "spi_burst miso c [] = []"
| "spi_burst miso c (b # bs) = SpiTransfer b (miso c) # spi_burst miso (Suc c) bs"

text \<open>The bench with a serial flash that answers every transfer with 0x01: its status
  register reports write-in-progress for ever.\<close>

definition busy_flash :: "unit hw" where
  "busy_flash = (setup_hw bench)\<lparr>miso_src := (\<lambda>n. 0x01)\<rparr>"

text \<open>A session on the bench with the NAND technology selected.\<close>

definition nand_session :: "unit session" where
  "nand_session = (power_on bench)\<lparr>currentMemoryType := MEM_NAND_FLASH\<rparr>"

text \<open>A session on the bench with the SPI flash technology selected.\<close>

definition spi_session :: "unit session" where
  "spi_session = (power_on bench)\<lparr>currentMemoryType := MEM_SPI_FLASH\<rparr>"


text \<open>
  A chunk of an EEPROM write as it appears in a two-wire transaction: the address phase (two
  bytes when \<open>use16bitAddr\<close>, else one) followed by the payload. The chunk stays inside
  an 8-byte page when its start address modulo 8 plus its length is at most 8; the start
  address modulo 8 is read off the last address byte, since 256 is a multiple of 8.
\<close>

definition chunk_in_page :: "bool \<Rightarrow> byte list \<Rightarrow> bool" where
  "chunk_in_page use16bitAddr bytes =
    (let k = (if use16bitAddr then 2 else 1)
     in k \<le> length bytes \<and> unat (bytes ! (k - 1)) mod 8 + (length bytes - k) \<le> 8)"

text \<open>Between two states: the trace only grew, and every two-wire transaction or request
  added to it went to the device address \<open>dev\<close>.\<close>

definition talks_only_to :: "byte \<Rightarrow> 'd hw \<Rightarrow> 'd hw \<Rightarrow> bool" where
  "talks_only_to dev s s' = (\<exists>evs. trace s' = trace s @ evs \<and> set (wire_targets evs) \<subseteq> {dev})"


text \<open>The bench with an EEPROM that acknowledges every transfer, and a session on it with
  the EEPROM technology selected and the bus address set to 0x61.\<close>

definition eeprom_bench :: "unit hw" where
  "eeprom_bench = bench\<lparr>wire_end_src := (\<lambda>n. 0)\<rparr>"

definition i2c_session :: "unit session" where
  "i2c_session = (power_on eeprom_bench)\<lparr>currentMemoryType := MEM_I2C_EEPROM, i2cAddress := 0x61\<rparr>"

declare i2cWriteData_loop.simps [simp del]
declare i2cErase_loop.simps [simp del]

text \<open>The bench with a NAND device that never releases its ready/busy output: every
  reading of the RB pin is low.\<close>

definition stuck_nand :: "unit hw" where
  "stuck_nand = (setup_hw bench)\<lparr>rb_src := (\<lambda>n. False)\<rparr>"

text \<open>
  The environment lets every ready wait end: from any position in the two input streams,
  either the ready/busy line is read high or the clock is read more than 1000 ms after any
  given start. A wait that never sees either does not return.
\<close>

definition waits_end :: "'d hw \<Rightarrow> bool" where
  "waits_end s = (\<forall>i j t. \<exists>k. rb_src s (i + k) \<or> 1000 < millis_src s (j + k) - t)"

text \<open>The five address bytes that nandReadData and nandWriteData put on the bus for
  \<open>address\<close>: column low, column high, and three page bytes cut from the 16-bit \<open>page\<close>.\<close>

definition nand_address :: "ulong \<Rightarrow> byte list" where
  "nand_address address =
    [ucast ((ucast (address mod ucast (512 :: uint)) :: uint) AND 0xFF),
     ucast (drop_bit 8 (ucast (address mod ucast (512 :: uint)) :: uint) AND 0xFF),
     ucast ((ucast (address div ucast (512 :: uint)) :: uint) AND 0xFF),
     ucast (drop_bit 8 (ucast (address div ucast (512 :: uint)) :: uint) AND 0xFF),
     ucast (drop_bit 16 (ucast (address div ucast (512 :: uint)) :: uint) AND 0xFF)]"

section \<open>A simulated NAND device\<close>

text \<open>
  Modelled from the spec: the repository contains no NAND back end, the sketch only drives
  pins. The device below is the simulated back end that the round-trip property speaks of,
  attached to the board through \<open>nand_we\<close> (a rising edge of WE) and \<open>nand_re\<close> (a falling edge
  of RE). It latches a command when CLE is high, an address byte when ALE is high and a data
  byte otherwise, and it ignores the bus while CE is high. Its store is indexed by row (page)
  and column; a page program overwrites the addressed cells, a block erase fills 32 rows
  with 0xFF. The status byte of the next program or erase comes from \<open>outcome_src\<close>; the
  store changes only when bit 0 of that byte is clear.
\<close>

datatype nand_mode = Idle | ReadSetup | DataOutput | ProgramSetup | EraseSetup | StatusOutput

record nand_sim =
  cells :: "nat \<Rightarrow> nat \<Rightarrow> byte"
  mode :: nand_mode
  addr_reg :: "byte list"
  page_reg :: "byte list"
  row_ptr :: nat
  col_ptr :: nat
  status_reg :: byte
  outcome_src :: "nat \<Rightarrow> byte"
  outcomes :: nat

text \<open>Modelled from the spec: the column is the first two address bytes, low byte first.\<close>

definition sim_column :: "byte list \<Rightarrow> nat" where
  "sim_column a = unat (a ! 0) + 256 * unat (a ! 1)"

text \<open>Modelled from the spec: the row is the last three of the five address bytes.\<close>

definition sim_row :: "byte list \<Rightarrow> nat" where
  "sim_row a = unat (a ! 2) + 256 * unat (a ! 3) + 65536 * unat (a ! 4)"

text \<open>Modelled from the spec: program confirm. The page register is stored from the
  addressed column on, if the outcome has bit 0 clear and five address bytes were given.\<close>

definition sim_program :: "nand_sim \<Rightarrow> nand_sim" where
  "sim_program d =
    (let st = outcome_src d (outcomes d)
     in d\<lparr>mode := Idle, status_reg := st, outcomes := Suc (outcomes d),
          cells :=
            (if st AND 0x01 = 0 \<and> length (addr_reg d) = 5
             then (\<lambda>r c. if r = sim_row (addr_reg d) \<and> sim_column (addr_reg d) \<le> c \<and>
                             c < sim_column (addr_reg d) + length (page_reg d)
                          then page_reg d ! (c - sim_column (addr_reg d))
                          else cells d r c)
             else cells d)\<rparr>)"

text \<open>Modelled from the spec: erase confirm, with the three-byte block address of the driver.\<close>

definition sim_erase :: "nand_sim \<Rightarrow> nand_sim" where
  "sim_erase d =
    (let st = outcome_src d (outcomes d);
         block = unat (addr_reg d ! 0) + 256 * unat (addr_reg d ! 1) + 65536 * unat (addr_reg d ! 2)
     in d\<lparr>mode := Idle, status_reg := st, outcomes := Suc (outcomes d),
          cells :=
            (if st AND 0x01 = 0 \<and> length (addr_reg d) = 3
             then (\<lambda>r c. if 32 * block \<le> r \<and> r < 32 * block + 32 then 0xFF else cells d r c)
             else cells d)\<rparr>)"

text \<open>Modelled from the spec: the command set, by the opcodes that the driver uses.\<close>

definition sim_command :: "byte \<Rightarrow> nand_sim \<Rightarrow> nand_sim" where
  "sim_command b d =
    (if b = NAND_CMD_RESET then d\<lparr>mode := Idle, addr_reg := [], page_reg := []\<rparr>
     else if b = NAND_CMD_READ then d\<lparr>mode := ReadSetup, addr_reg := []\<rparr>
     else if b = NAND_CMD_READ_CONFIRM then
       (if mode d = ReadSetup \<and> length (addr_reg d) = 5
        then d\<lparr>mode := DataOutput, row_ptr := sim_row (addr_reg d), col_ptr := sim_column (addr_reg d)\<rparr>
        else d)
     else if b = NAND_CMD_PROGRAM then d\<lparr>mode := ProgramSetup, addr_reg := [], page_reg := []\<rparr>
     else if b = NAND_CMD_PROGRAM_CONFIRM then
       (if mode d = ProgramSetup then sim_program d else d)
     else if b = NAND_CMD_ERASE then d\<lparr>mode := EraseSetup, addr_reg := []\<rparr>
     else if b = NAND_CMD_ERASE_CONFIRM then
       (if mode d = EraseSetup then sim_erase d else d)
     else if b = NAND_CMD_READ_STATUS then d\<lparr>mode := StatusOutput\<rparr>
     else d)"

text \<open>Modelled from the spec: a write cycle, by the levels of CE, CLE and ALE.\<close>

definition sim_we :: "bool \<Rightarrow> bool \<Rightarrow> bool \<Rightarrow> byte \<Rightarrow> nand_sim \<Rightarrow> nand_sim" where
  "sim_we ce cle ale b d =
    (if ce then d
     else if cle then sim_command b d
     else if ale then d\<lparr>addr_reg := addr_reg d @ [b]\<rparr>
     else d\<lparr>page_reg := page_reg d @ [b]\<rparr>)"

text \<open>Modelled from the spec: a read cycle. In data output the column pointer advances.\<close>

definition sim_re :: "bool \<Rightarrow> nand_sim \<Rightarrow> byte \<times> nand_sim" where
  "sim_re ce d =
    (if ce then (0xFF, d)
     else case mode d of
            StatusOutput \<Rightarrow> (status_reg d, d)
          | DataOutput \<Rightarrow> (cells d (row_ptr d) (col_ptr d), d\<lparr>col_ptr := Suc (col_ptr d)\<rparr>)
          | _ \<Rightarrow> (0xFF, d))"

text \<open>An erased device whose operations all succeed (status 0xC0), and the bench with this
  device in the socket.\<close>

definition blank_nand :: nand_sim where
  "blank_nand =
    \<lparr>cells = (\<lambda>r c. 0xFF), mode = Idle, addr_reg = [], page_reg = [], row_ptr = 0, col_ptr = 0,
     status_reg = 0xC0, outcome_src = (\<lambda>n. 0xC0), outcomes = 0\<rparr>"

definition sim_bench :: "nand_sim hw" where
  "sim_bench =
    \<lparr>DDRD = 0, DDRB = 0, PORTD = 0, PORTB = 0, pins = (\<lambda>p. False), trace = [], serial = [],
     nand_dev = blank_nand, nand_we = sim_we, nand_re = sim_re,
     rb_src = (\<lambda>n. True), rb_reads = 0,
     millis_src = (\<lambda>n. of_nat (500 * n)), millis_calls = 0,
     miso_src = (\<lambda>n. 0xFF), spi_transfers = 0,
     wire_end_src = (\<lambda>n. 2), wire_ends = 0,
     wire_rx_src = (\<lambda>n. []), wire_requests = 0, wire_rx = [], stack_garbage = []\<rparr>"

section \<open>Facts about the primitives\<close>

lemma m63: "(0x3F::byte) = mask 6" by (simp add: mask_eq_exp_minus_1)
lemma m3: "(0x03::byte) = mask 2" by (simp add: mask_eq_exp_minus_1)
lemma mFC: "(0xFC::byte) = NOT (mask 2)" by (simp add: mask_eq_exp_minus_1)

lemma bus_after_write:
  "(drop_bit 2 (((p::byte) AND 0x03) OR push_bit 2 (d AND 0x3F)) AND 0x3F) OR push_bit 6 ((((q::byte) AND 0xFC) OR (drop_bit 6 d AND 0x03)) AND 0x03) = d"
  unfolding m63 m3 mFC
  by (rule bit_word_eqI) (auto simp: bit_simps)

lemma read_join:
  "(0::byte) OR (drop_bit 2 (push_bit 2 (v AND 0x3F) OR (p AND 0x03)) AND 0x3F) OR push_bit 6 (((drop_bit 6 v AND 0x03) OR (q AND 0xFC)) AND 0x03) = v"
  unfolding m63 m3 mFC
  by (rule bit_word_eqI) (auto simp: bit_simps)

lemmas bus_after_write_nf = bus_after_write [simplified]
lemmas read_join_nf = read_join [simplified]

lemma nandWriteByte_eq:
  "nandWriteByte d s =
     s\<lparr>DDRD := DDRD s OR 0xFC, DDRB := DDRB s OR 0x03,
       PORTD := (PORTD s AND 0x03) OR push_bit 2 (d AND 0x3F),
       PORTB := (PORTB s AND 0xFC) OR (drop_bit 6 d AND 0x03),
       pins := (pins s)(NAND_WE_PIN := True),
       trace := trace s @ [NandBusOut d, DigitalWrite NAND_WE_PIN False, DelayMicroseconds 1,
                           DigitalWrite NAND_WE_PIN True, DelayMicroseconds 1],
       nand_dev := nand_we s (pins s NAND_CE_PIN) (pins s NAND_CLE_PIN) (pins s NAND_ALE_PIN)
                     d (nand_dev s)\<rparr>"
  by (simp add: nandWriteByte_def Let_def data_bus_def bus_after_write_nf emit_def digitalWrite_def
        delayMicroseconds_def)

lemma nandReadByte_eq:
  "nandReadByte s =
     (fst (nand_re s (pins s NAND_CE_PIN) (nand_dev s)),
      s\<lparr>DDRD := DDRD s AND 0x03, DDRB := DDRB s AND 0xFC,
        pins := (pins s)(NAND_RE_PIN := True),
        trace := trace s @ [DigitalWrite NAND_RE_PIN False, DelayMicroseconds 1,
                            NandBusIn (fst (nand_re s (pins s NAND_CE_PIN) (nand_dev s))),
                            DigitalWrite NAND_RE_PIN True, DelayMicroseconds 1],
        nand_dev := snd (nand_re s (pins s NAND_CE_PIN) (nand_dev s))\<rparr>)"
  by (simp add: nandReadByte_def Let_def read_join_nf emit_def digitalWrite_def
        delayMicroseconds_def)

lemma wait_ready:
  "rb_src s (rb_reads s) \<Longrightarrow>
   waitForNandReady s = Some (s\<lparr>millis_calls := Suc (millis_calls s), rb_reads := Suc (rb_reads s)\<rparr>)"
  by (simp add: waitForNandReady_def waitForNandReady_loop.simps millis_def digitalRead_RB_def)

lemma wait_loop_frame:
  assumes "waitForNandReady_loop t s = Some s'"
  shows "s' = s\<lparr>rb_reads := rb_reads s', millis_calls := millis_calls s', serial := serial s'\<rparr> \<and>
     (serial s' = serial s \<or> serial s' = serial s @ [Timeout])"
  using assms
proof (induct rule: waitForNandReady_loop.raw_induct[rotated 1, consumes 1, case_names step])
  case (step loop t s s')
  show ?case
  proof (cases "fst (digitalRead_RB s)")
    case True
    with step(2) show ?thesis by (auto simp: digitalRead_RB_def)
  next
    case False
    show ?thesis
    proof (cases "fst (millis (snd (digitalRead_RB s))) - t > 1000")
      case True
      with False step(2) show ?thesis
        by (auto simp: digitalRead_RB_def millis_def println_def)
    next
      case nt: False
      with False step(2) have "loop t (snd (millis (snd (digitalRead_RB s)))) = Some s'"
        by simp
      from step(1)[OF this]
      have eq: "s' = (snd (millis (snd (digitalRead_RB s))))
                  \<lparr>rb_reads := rb_reads s', millis_calls := millis_calls s', serial := serial s'\<rparr>"
        and ser: "serial s' = serial (snd (millis (snd (digitalRead_RB s)))) \<or>
                  serial s' = serial (snd (millis (snd (digitalRead_RB s)))) @ [Timeout]"
        by blast+
      have stp: "(snd (millis (snd (digitalRead_RB s))))\<lparr>rb_reads := x, millis_calls := y, serial := z\<rparr>
                  = s\<lparr>rb_reads := x, millis_calls := y, serial := z\<rparr>" for x y z
        by (simp add: digitalRead_RB_def millis_def)
      have "serial (snd (millis (snd (digitalRead_RB s)))) = serial s"
        by (simp add: digitalRead_RB_def millis_def)
      with ser eq[unfolded stp] show ?thesis
        by simp
    qed
  qed
qed

lemma wait_frame:
  assumes "waitForNandReady s = Some s'"
  shows "s' = s\<lparr>rb_reads := rb_reads s', millis_calls := millis_calls s', serial := serial s'\<rparr> \<and>
     (serial s' = serial s \<or> serial s' = serial s @ [Timeout])"
proof -
  from assms have "waitForNandReady_loop (fst (millis s)) (snd (millis s)) = Some s'"
    by (simp add: waitForNandReady_def)
  from wait_loop_frame[OF this]
  have eq: "s' = (snd (millis s))\<lparr>rb_reads := rb_reads s', millis_calls := millis_calls s', serial := serial s'\<rparr>"
    and ser: "serial s' = serial (snd (millis s)) \<or> serial s' = serial (snd (millis s)) @ [Timeout]"
    by blast+
  have stp: "(snd (millis s))\<lparr>rb_reads := x, millis_calls := y, serial := z\<rparr>
                  = s\<lparr>rb_reads := x, millis_calls := y, serial := z\<rparr>" for x y z
    by (simp add: millis_def)
  have "serial (snd (millis s)) = serial s"
    by (simp add: millis_def)
  with ser eq[unfolded stp] show ?thesis
    by simp
qed

lemma nand_offset: "unat (ucast ((address::ulong) mod 512) :: uint) = unat address mod 512"
  by (simp add: unsigned_ucast_eq take_bit_eq_mod unat_mod)

text \<open>writeData keeps at most 32 bytes, so their count fits the 16-bit \<open>numBytes\<close>.\<close>

lemma kept_tokens: "unat (of_nat (length (take 32 tokens)) :: uint) = length (take 32 tokens)"
proof -
  have "length (take 32 tokens) < 2 ^ LENGTH(16)"
    by (simp add: min_def)
  thus ?thesis
    by (rule of_nat_inverse [OF refl])
qed

lemma nandWriteData_attempt:
  assumes "\<not> 512 < (ucast (address mod 512) :: uint) + numBytes"
      and "nandWriteData address data numBytes s = Some s'"
  shows "last (serial s') = ProgramFailed \<or> last (serial s') = ProgramSuccessful"
  using assms by (auto simp: nandWriteData_def Let_def println_def split: if_splits)

section \<open>The guard on the selected technology\<close>

text \<open>
  Claim C5, as amended. With \<open>currentMemoryType = MEM_UNKNOWN\<close> each of readDeviceID,
  readData, writeData, eraseMemory and readStatus returns at once: the only effect is the
  line \<open>NoTechnologySelected\<close> on the serial port, so the bus trace and the two globals are
  unchanged. setI2CAddress has no such guard: in every mode, \<open>MEM_UNKNOWN\<close> included (the
  last conjunct stands outside the hypothesis on the mode), it stores a value in
  [0x08, 0x77] and refuses any other, without bus activity.
\<close>

theorem guarded_operations_need_technology:
  "(currentMemoryType s = MEM_UNKNOWN \<longrightarrow>
      readDeviceID s =
        Some (s\<lparr>board := (board s)\<lparr>serial := serial (board s) @ [NoTechnologySelected]\<rparr>\<rparr>) \<and>
      readData a n s =
        Some (s\<lparr>board := (board s)\<lparr>serial := serial (board s) @ [NoTechnologySelected]\<rparr>\<rparr>) \<and>
      writeData a ts s =
        Some (s\<lparr>board := (board s)\<lparr>serial := serial (board s) @ [NoTechnologySelected]\<rparr>\<rparr>) \<and>
      eraseMemory opt a c s =
        Some (s\<lparr>board := (board s)\<lparr>serial := serial (board s) @ [NoTechnologySelected]\<rparr>\<rparr>) \<and>
      readStatus s =
        Some (s\<lparr>board := (board s)\<lparr>serial := serial (board s) @ [NoTechnologySelected]\<rparr>\<rparr>)) \<and>
   setI2CAddress b s =
     (if 0x08 \<le> b \<and> b \<le> 0x77
      then Some (s\<lparr>i2cAddress := b,
                   board := (board s)\<lparr>serial := serial (board s) @ [I2cAddressSet b]\<rparr>\<rparr>)
      else Some (s\<lparr>board := (board s)\<lparr>serial := serial (board s) @ [InvalidI2cAddress]\<rparr>\<rparr>))"
  by (simp add: readDeviceID_def readData_def writeData_def eraseMemory_def readStatus_def
        setI2CAddress_def on_board_def println_def)

theorem guarded_operations_need_technology_witness:
  "currentMemoryType (power_on bench) = MEM_UNKNOWN \<and>
   readData 0x100 16 (power_on bench) =
     Some ((power_on bench)\<lparr>board := (board (power_on bench))
        \<lparr>serial := serial (board (power_on bench)) @ [NoTechnologySelected]\<rparr>\<rparr>) \<and>
   setI2CAddress 0x61 nand_session =
     Some (nand_session\<lparr>i2cAddress := 0x61,
        board := (board nand_session)\<lparr>serial := serial (board nand_session) @ [I2cAddressSet 0x61]\<rparr>\<rparr>) \<and>
   setI2CAddress 0x05 (power_on bench) =
     Some ((power_on bench)\<lparr>board := (board (power_on bench))
        \<lparr>serial := serial (board (power_on bench)) @ [InvalidI2cAddress]\<rparr>\<rparr>)"
proof -
  have h: "currentMemoryType (power_on bench) = MEM_UNKNOWN"
    by (simp add: power_on_def)
  from guarded_operations_need_technology [where s = "power_on bench" and a = "0x100" and n = "16" and b = "0x05"] h
  have a: "readData 0x100 16 (power_on bench) =
     Some ((power_on bench)\<lparr>board := (board (power_on bench))
        \<lparr>serial := serial (board (power_on bench)) @ [NoTechnologySelected]\<rparr>\<rparr>)"
    and c: "setI2CAddress 0x05 (power_on bench) =
     Some ((power_on bench)\<lparr>board := (board (power_on bench))
        \<lparr>serial := serial (board (power_on bench)) @ [InvalidI2cAddress]\<rparr>\<rparr>)"
    by simp_all
  from guarded_operations_need_technology [where s = nand_session and b = "0x61"]
  have b: "setI2CAddress 0x61 nand_session =
     Some (nand_session\<lparr>i2cAddress := 0x61,
        board := (board nand_session)\<lparr>serial := serial (board nand_session) @ [I2cAddressSet 0x61]\<rparr>\<rparr>)"
    by simp
  from h a b c show ?thesis by (simp only: simp_thms)
qed

text \<open>
  The claim as stated fails for setBusAddress: on a freshly started controller, with no
  technology selected, setI2CAddress 0x61 reports no error and replaces the address 0x50.
\<close>

theorem setI2CAddress_ignores_technology:
  "currentMemoryType (power_on bench) = MEM_UNKNOWN \<and>
   i2cAddress (power_on bench) = 0x50 \<and>
   map_option i2cAddress (setI2CAddress 0x61 (power_on bench)) = Some 0x61 \<and>
   map_option (serial \<circ> board) (setI2CAddress 0x61 (power_on bench)) = Some [I2cAddressSet 0x61]"
  by (simp add: power_on_def setI2CAddress_def on_board_def println_def setup_hw_def bench_def
      digitalWrite_def emit_def Let_def)

section \<open>NAND: a write that crosses the page is refused\<close>

text \<open>The boundary test of nandWriteData, for every sum that the 16-bit \<^verbatim>\<open>unsigned int\<close>
  holds: the call returns at once and only prints.\<close>

lemma nandWriteData_refused:
  assumes "512 < unat address mod 512 + unat numBytes"
      and "unat address mod 512 + unat numBytes < 65536"
  shows "nandWriteData address data numBytes s =
           Some (s\<lparr>serial := serial s @ [BoundaryViolation]\<rparr>)"
proof -
  have "unat (ucast (address mod 512) + numBytes :: uint) = unat address mod 512 + unat numBytes"
    using assms(2) unat_add_lem [of "ucast (address mod 512) :: uint" numBytes]
    by (simp add: nand_offset)
  hence "(512 :: uint) < ucast (address mod 512) + numBytes"
    using assms(1) by (simp add: word_less_nat_alt)
  thus ?thesis
    by (simp add: nandWriteData_def Let_def println_def)
qed

text \<open>
  Claim C2. With \<open>offset = address mod 512\<close>, if \<open>offset + numBytes\<close> is more than 512,
  nandWriteData returns at once: the only effect is the line \<open>BoundaryViolation\<close>; no pin
  is driven, no byte is put on the bus and the device is not touched. This holds for every
  payload of up to 65024 bytes, more than the data space of the controller can hold, and
  for every call of writeData with the NAND technology selected, whatever was typed:
  writeData passes on at most 32 bytes, and the session is left as it was but for the
  printed line.
\<close>

theorem nandWriteData_rejects_page_crossing:
  "(512 < unat address mod 512 + unat numBytes \<and> unat numBytes \<le> 65024 \<longrightarrow>
      nandWriteData address data numBytes s =
        Some (s\<lparr>serial := serial s @ [BoundaryViolation]\<rparr>)) \<and>
   (currentMemoryType t = MEM_NAND_FLASH \<and>
    512 < unat address mod 512 + length (take 32 tokens) \<longrightarrow>
      writeData address tokens t =
        Some (t\<lparr>board := (board t)\<lparr>serial := serial (board t) @ [BoundaryViolation]\<rparr>\<rparr>))"
proof (rule conjI; rule impI)
  assume h: "512 < unat address mod 512 + unat numBytes \<and> unat numBytes \<le> 65024"
  hence cross: "512 < unat address mod 512 + unat numBytes"
    by simp
  have "unat address mod 512 < 512"
    by simp
  with h have fits: "unat address mod 512 + unat numBytes < 65536"
    by linarith
  show "nandWriteData address data numBytes s =
        Some (s\<lparr>serial := serial s @ [BoundaryViolation]\<rparr>)"
    by (rule nandWriteData_refused[OF cross fits])
next
  assume h: "currentMemoryType t = MEM_NAND_FLASH \<and>
             512 < unat address mod 512 + length (take 32 tokens)"
  define n :: uint where "n = of_nat (length (take 32 tokens))"
  have n: "unat n = length (take 32 tokens)"
    unfolding n_def by (rule kept_tokens)
  have cross: "512 < unat address mod 512 + unat n"
    using h by (simp add: n)
  have "unat address mod 512 < 512" and "length (take 32 tokens) \<le> 32"
    by simp_all
  hence fits: "unat address mod 512 + unat n < 65536"
    unfolding n by linarith
  show "writeData address tokens t =
        Some (t\<lparr>board := (board t)\<lparr>serial := serial (board t) @ [BoundaryViolation]\<rparr>\<rparr>)"
    using h nandWriteData_refused[OF cross fits, where data = "take 32 tokens" and s = "board t"]
    by (simp add: writeData_def Let_def on_board_opt_def n_def)
qed

theorem nandWriteData_rejects_page_crossing_witness:
  "nandWriteData 500 (replicate 20 0xAA) 20 (setup_hw bench) =
     Some ((setup_hw bench)\<lparr>serial := serial (setup_hw bench) @ [BoundaryViolation]\<rparr>) \<and>
   writeData 500 (replicate 20 0xAA) nand_session =
     Some (nand_session\<lparr>board := (board nand_session)
             \<lparr>serial := serial (board nand_session) @ [BoundaryViolation]\<rparr>\<rparr>)"
proof -
  have h1: "512 < unat (500 :: ulong) mod 512 + unat (20 :: uint) \<and> unat (20 :: uint) \<le> 65024"
    by simp
  have h2: "currentMemoryType nand_session = MEM_NAND_FLASH \<and>
            512 < unat (500 :: ulong) mod 512 + length (take 32 (replicate 20 (0xAA :: byte)))"
    by (simp add: nand_session_def)
  note t = nandWriteData_rejects_page_crossing [where address = "500" and numBytes = "20" and data = "replicate 20 0xAA"
                and s = "setup_hw bench" and t = nand_session and tokens = "replicate 20 0xAA"]
  from t h1 have a: "nandWriteData 500 (replicate 20 0xAA) 20 (setup_hw bench) =
     Some ((setup_hw bench)\<lparr>serial := serial (setup_hw bench) @ [BoundaryViolation]\<rparr>)"
    by (simp only: simp_thms)
  from t h2 have b: "writeData 500 (replicate 20 0xAA) nand_session =
     Some (nand_session\<lparr>board := (board nand_session)
             \<lparr>serial := serial (board nand_session) @ [BoundaryViolation]\<rparr>\<rparr>)"
    by (simp only: simp_thms)
  from a b show ?thesis ..
qed

section \<open>NAND: block erase\<close>

lemma wait_keeps:
  assumes "waitForNandReady s = Some s'"
  shows "trace s' = trace s" "pins s' = pins s" "nand_dev s' = nand_dev s"
    "nand_we s' = nand_we s" "nand_re s' = nand_re s" "rb_src s' = rb_src s"
    "millis_src s' = millis_src s"
proof -
  from wait_frame[OF assms]
  have eq: "s' = s\<lparr>rb_reads := rb_reads s', millis_calls := millis_calls s', serial := serial s'\<rparr>"
    by blast
  show "trace s' = trace s" by (subst eq) simp
  show "pins s' = pins s" by (subst eq) simp
  show "nand_dev s' = nand_dev s" by (subst eq) simp
  show "nand_we s' = nand_we s" by (subst eq) simp
  show "nand_re s' = nand_re s" by (subst eq) simp
  show "rb_src s' = rb_src s" by (subst eq) simp
  show "millis_src s' = millis_src s" by (subst eq) simp
qed

lemma nandErase_cycles:
  assumes "nandErase opt a s = Some s'"
  shows "\<exists>st. nand_cycles cle ale (emitted s s') =
           [Command 0x60] @
           (if opt = CHR ''1'' \<or> opt = CHR ''2''
            then [Address (ucast ((ucast (a div 16384) :: uint) AND 0xFF)),
                  Address (ucast (drop_bit 8 (ucast (a div 16384) :: uint) AND 0xFF)),
                  Address (ucast (drop_bit 16 (ucast (a div 16384) :: uint) AND 0xFF))]
            else []) @
           [Command 0xD0, Command 0x70, DataOut st]"
  using assms
  apply (clarsimp simp: nandErase_def Let_def)
  apply (frule wait_keeps(1))
  apply (simp add: Let_def emitted_def nandWriteByte_eq nandReadByte_eq digitalWrite_def emit_def
      println_def split: if_splits)
  done

text \<open>
  Claim C9. The claim is that for every address the three address-phase bytes of a block
  erase are the low, high and highest byte of \<open>address div 16384\<close>. For address 20000
  they are: block 1. For address 0x40000000 the block index is 65536, bytes 0x00, 0x00,
  0x01; the driver keeps the index in a 16-bit \<^verbatim>\<open>unsigned int\<close>, which holds 0, and
  emits 0x00, 0x00, 0x00: the erase goes to block 0.
\<close>

theorem nandErase_block_index_truncated:
  "unat (0x40000000 :: ulong) div 16384 = 65536 \<and>
   map_option (\<lambda>s'. address_bytes (nand_cycles False False (emitted (setup_hw bench) s')))
     (nandErase (CHR ''2'') 0x40000000 (setup_hw bench)) = Some [0x00, 0x00, 0x00] \<and>
   map_option (\<lambda>s'. address_bytes (nand_cycles False False (emitted (setup_hw bench) s')))
     (nandErase (CHR ''2'') 20000 (setup_hw bench)) = Some [0x01, 0x00, 0x00]"
  by (simp add: nandErase_def Let_def wait_ready nandWriteByte_eq nandReadByte_eq digitalWrite_def
      emit_def println_def emitted_def setup_hw_def bench_def)

text \<open>
  Claim C10. The claim is that on NAND a Sector erase and a Block erase at the same address
  put the same sequence on the bus, a block erase of block \<open>address div 16384\<close>, and that a
  Chip erase sends erase and erase confirm with no address byte. The two scopes are indeed
  the same call, for every address and session, and the Chip erase has no address phase;
  at address 20000 both scopes erase block 1. At address 0x40000000 the block index is
  65536, bytes 0x00, 0x00, 0x01, and the Sector erase emits 0x00, 0x00, 0x00: the 16-bit
  \<^verbatim>\<open>unsigned int block\<close> has dropped the index, and block 0 is erased.
\<close>

theorem nand_sector_erase_block_index_truncated:
  "eraseMemory (CHR ''1'') a c (s\<lparr>currentMemoryType := MEM_NAND_FLASH\<rparr>) =
     eraseMemory (CHR ''2'') a c (s\<lparr>currentMemoryType := MEM_NAND_FLASH\<rparr>) \<and>
   unat (0x40000000 :: ulong) div 16384 = 65536 \<and>
   map_option (\<lambda>s'. nand_cycles False False (emitted (board nand_session) (board s')))
     (eraseMemory (CHR ''1'') 0x40000000 [] nand_session) =
     Some [Command NAND_CMD_ERASE, Address 0x00, Address 0x00, Address 0x00,
           Command NAND_CMD_ERASE_CONFIRM, Command NAND_CMD_READ_STATUS, DataOut 0xFF] \<and>
   map_option (\<lambda>s'. nand_cycles False False (emitted (board nand_session) (board s')))
     (eraseMemory (CHR ''1'') 20000 [] nand_session) =
     Some [Command NAND_CMD_ERASE, Address 0x01, Address 0x00, Address 0x00,
           Command NAND_CMD_ERASE_CONFIRM, Command NAND_CMD_READ_STATUS, DataOut 0xFF] \<and>
   map_option (\<lambda>s'. nand_cycles False False (emitted (board nand_session) (board s')))
     (eraseMemory (CHR ''3'') 20000 ''YES'' nand_session) =
     Some [Command NAND_CMD_ERASE,
           Command NAND_CMD_ERASE_CONFIRM, Command NAND_CMD_READ_STATUS, DataOut 0xFF]"
proof -
  have eq: "eraseMemory (CHR ''1'') a c (s\<lparr>currentMemoryType := MEM_NAND_FLASH\<rparr>) =
     eraseMemory (CHR ''2'') a c (s\<lparr>currentMemoryType := MEM_NAND_FLASH\<rparr>)"
    by (simp add: eraseMemory_def on_board_opt_def nandErase_def)
  have run: "map_option (\<lambda>s'. nand_cycles False False (emitted (board nand_session) (board s')))
     (eraseMemory (CHR ''1'') 0x40000000 [] nand_session) =
     Some [Command NAND_CMD_ERASE, Address 0x00, Address 0x00, Address 0x00,
           Command NAND_CMD_ERASE_CONFIRM, Command NAND_CMD_READ_STATUS, DataOut 0xFF]"
    "map_option (\<lambda>s'. nand_cycles False False (emitted (board nand_session) (board s')))
     (eraseMemory (CHR ''1'') 20000 [] nand_session) =
     Some [Command NAND_CMD_ERASE, Address 0x01, Address 0x00, Address 0x00,
           Command NAND_CMD_ERASE_CONFIRM, Command NAND_CMD_READ_STATUS, DataOut 0xFF]"
    "map_option (\<lambda>s'. nand_cycles False False (emitted (board nand_session) (board s')))
     (eraseMemory (CHR ''3'') 20000 ''YES'' nand_session) =
     Some [Command NAND_CMD_ERASE,
           Command NAND_CMD_ERASE_CONFIRM, Command NAND_CMD_READ_STATUS, DataOut 0xFF]"
    by (simp_all add: nand_session_def power_on_def eraseMemory_def on_board_opt_def
      nandErase_def Let_def wait_ready nandWriteByte_eq nandReadByte_eq digitalWrite_def
      emit_def println_def emitted_def setup_hw_def bench_def option.map_comp comp_def)
  have "unat (0x40000000 :: ulong) div 16384 = 65536"
    by simp
  with eq run show ?thesis
    by (simp only: simp_thms)
qed

section \<open>SPI flash: page programming\<close>

lemma spiSend_eq:
  "spiSend b s = s\<lparr>spi_transfers := Suc (spi_transfers s),
                    trace := trace s @ [SpiTransfer b (miso_src s (spi_transfers s))]\<rparr>"
  by (simp add: spiSend_def spiTransfer_def emit_def)

lemma spiTransfer_eq:
  "spiTransfer b s = (miso_src s (spi_transfers s),
                      s\<lparr>spi_transfers := Suc (spi_transfers s),
                        trace := trace s @ [SpiTransfer b (miso_src s (spi_transfers s))]\<rparr>)"
  by (simp add: spiTransfer_def emit_def)

lemma fold_spiSend:
  "fold spiSend xs s =
     s\<lparr>spi_transfers := spi_transfers s + length xs,
       trace := trace s @ spi_burst (miso_src s) (spi_transfers s) xs\<rparr>"
  by (induction xs arbitrary: s) (simp_all add: spiSend_eq)

lemma spi_transactions_burst:
  "spi_transactions (Some acc) (spi_burst m c xs @ rest) = spi_transactions (Some (acc @ xs)) rest"
  by (induction xs arbitrary: acc c) simp_all

lemma spiWritePage_trace:
  "trace (spiWritePage address data numBytes s) =
     trace s @
     [DigitalWrite SPI_CS_PIN False,
      SpiTransfer SPI_CMD_WRITE_ENABLE (miso_src s (spi_transfers s)),
      DigitalWrite SPI_CS_PIN True, Delay 1, DigitalWrite SPI_CS_PIN False,
      SpiTransfer SPI_CMD_PAGE_PROGRAM (miso_src s (spi_transfers s + 1)),
      SpiTransfer (ucast (drop_bit 16 address AND 0xFF)) (miso_src s (spi_transfers s + 2)),
      SpiTransfer (ucast (drop_bit 8 address AND 0xFF)) (miso_src s (spi_transfers s + 3)),
      SpiTransfer (ucast (address AND 0xFF)) (miso_src s (spi_transfers s + 4))] @
     spi_burst (miso_src s) (spi_transfers s + 5) (take (unat numBytes) data) @
     [DigitalWrite SPI_CS_PIN True, DigitalWrite SPI_CS_PIN False,
      SpiTransfer SPI_CMD_READ_STATUS
        (miso_src s (spi_transfers s + 5 + length (take (unat numBytes) data))),
      SpiTransfer 0 (miso_src s (spi_transfers s + 6 + length (take (unat numBytes) data))),
      DigitalWrite SPI_CS_PIN True]"
  by (simp add: spiWritePage_def Let_def fold_spiSend spiSend_eq spiTransfer_eq waitForSpiReady_def
      digitalWrite_def delay_def emit_def println_def eval_nat_numeral)

lemma spiWritePage_frame:
  "miso_src (spiWritePage address data numBytes s) = miso_src s"
  "spi_transfers (spiWritePage address data numBytes s)
     = spi_transfers s + 7 + length (take (unat numBytes) data)"
  "serial (spiWritePage address data numBytes s) = serial s @ [WriteComplete]"
  by (simp_all add: spiWritePage_def Let_def fold_spiSend spiSend_eq spiTransfer_eq waitForSpiReady_def
      digitalWrite_def delay_def emit_def println_def)

lemma spiWritePage_transactions:
  "spi_transactions None (emitted s (spiWritePage address data numBytes s)) =
     [[SPI_CMD_WRITE_ENABLE],
      [SPI_CMD_PAGE_PROGRAM, ucast (drop_bit 16 address AND 0xFF),
       ucast (drop_bit 8 address AND 0xFF), ucast (address AND 0xFF)] @ take (unat numBytes) data,
      [SPI_CMD_READ_STATUS, 0]]"
  by (simp add: emitted_def spiWritePage_trace spi_transactions_burst)


lemma spiWritePage_page_programs:
  "page_programs (emitted s (spiWritePage address data numBytes s)) =
     [[SPI_CMD_PAGE_PROGRAM, ucast (drop_bit 16 address AND 0xFF),
       ucast (drop_bit 8 address AND 0xFF), ucast (address AND 0xFF)] @ take (unat numBytes) data]"
  by (simp add: page_programs_def spiWritePage_transactions)

lemma spiWritePage_status_reads:
  "status_reads (emitted s (spiWritePage address data numBytes s)) = [[SPI_CMD_READ_STATUS, 0]]"
  by (simp add: status_reads_def spiWritePage_transactions)

lemma emitted_trans:
  "trace s1 = trace s @ xs \<Longrightarrow> trace s2 = trace s1 @ ys \<Longrightarrow> emitted s s2 = emitted s s1 @ emitted s1 s2"
  by (simp add: emitted_def)

lemma spi_offset: "unat (ucast ((address::ulong) mod 256) :: uint) = unat address mod 256"
  by (simp add: unsigned_ucast_eq take_bit_eq_mod unat_mod)

text \<open>The split of spiWriteData, for every sum \<open>offset + numBytes\<close> that the 16-bit
  \<^verbatim>\<open>unsigned int\<close> holds.\<close>

lemma spiWriteData_split:
  assumes "256 < unat address mod 256 + unat numBytes"
      and "unat address mod 256 + unat numBytes < 65536"
  shows "page_programs (emitted s (spiWriteData address data numBytes s)) =
           [[SPI_CMD_PAGE_PROGRAM, ucast (drop_bit 16 address AND 0xFF),
             ucast (drop_bit 8 address AND 0xFF), ucast (address AND 0xFF)]
              @ take (256 - unat address mod 256) data,
            [SPI_CMD_PAGE_PROGRAM,
             ucast (drop_bit 16 (address + of_nat (256 - unat address mod 256)) AND 0xFF),
             ucast (drop_bit 8 (address + of_nat (256 - unat address mod 256)) AND 0xFF),
             ucast ((address + of_nat (256 - unat address mod 256)) AND 0xFF)]
              @ take (unat numBytes - (256 - unat address mod 256))
                  (drop (256 - unat address mod 256) data)] \<and>
         take (256 - unat address mod 256) data
           @ take (unat numBytes - (256 - unat address mod 256))
               (drop (256 - unat address mod 256) data)
           = take (unat numBytes) data"
proof -
  define offset :: uint where "offset = ucast (address mod 256)"
  define k where "k = 256 - unat address mod 256"
  have off: "unat offset = unat address mod 256"
    by (simp add: offset_def spi_offset)
  have sum: "unat (offset + numBytes) = unat address mod 256 + unat numBytes"
    using assms(2) unat_add_lem [of offset numBytes] by (simp add: off)
  hence split: "(256 :: uint) < offset + numBytes"
    using assms(1) by (simp add: word_less_nat_alt)
  have "offset \<le> 256"
    by (simp add: word_le_nat_alt off)
  hence first: "unat (256 - offset) = k"
    by (simp add: unat_sub off k_def)
  have "256 - offset \<le> numBytes"
    using assms(1) by (simp add: word_le_nat_alt first k_def)
  hence second: "unat (numBytes - (256 - offset)) = unat numBytes - k"
    by (simp add: unat_sub first)
  have addr2: "(ucast (256 - offset) :: ulong) = of_nat k"
    using of_nat_unat [of "256 - offset", where ?'a = ulong] by (simp only: first)
  have sd: "spiWriteData address data numBytes s =
          spiWritePage (address + of_nat k) (drop k data) (numBytes - (256 - offset))
            (spiWritePage address data (256 - offset) (println BoundaryWarning s))"
    using split first addr2 unfolding offset_def by (simp add: spiWriteData_def Let_def)
  have two: "spi_transactions None (emitted s
             (spiWritePage a2 d2 n2 (spiWritePage a1 d1 n1 (println BoundaryWarning s)))) =
          [[SPI_CMD_WRITE_ENABLE],
           [SPI_CMD_PAGE_PROGRAM, ucast (drop_bit 16 a1 AND 0xFF),
            ucast (drop_bit 8 a1 AND 0xFF), ucast (a1 AND 0xFF)] @ take (unat n1) d1,
           [SPI_CMD_READ_STATUS, 0],
           [SPI_CMD_WRITE_ENABLE],
           [SPI_CMD_PAGE_PROGRAM, ucast (drop_bit 16 a2 AND 0xFF),
            ucast (drop_bit 8 a2 AND 0xFF), ucast (a2 AND 0xFF)] @ take (unat n2) d2,
           [SPI_CMD_READ_STATUS, 0]]" for a1 a2 :: ulong and d1 d2 n1 n2
    by (simp add: emitted_def spiWritePage_trace spi_transactions_burst println_def)
  have pp: "page_programs (emitted s (spiWriteData address data numBytes s)) =
           [[SPI_CMD_PAGE_PROGRAM, ucast (drop_bit 16 address AND 0xFF),
             ucast (drop_bit 8 address AND 0xFF), ucast (address AND 0xFF)] @ take k data,
            [SPI_CMD_PAGE_PROGRAM,
             ucast (drop_bit 16 (address + of_nat k) AND 0xFF),
             ucast (drop_bit 8 (address + of_nat k) AND 0xFF),
             ucast ((address + of_nat k) AND 0xFF)] @ take (unat numBytes - k) (drop k data)]"
    unfolding sd page_programs_def two by (simp add: first second)
  have "k \<le> unat numBytes"
    using assms(1) by (simp add: k_def)
  hence "take k data @ take (unat numBytes - k) (drop k data) = take (unat numBytes) data"
    using take_add [of k "unat numBytes - k" data] by simp
  with pp show ?thesis
    unfolding k_def by simp
qed

text \<open>
  Claim C1. With \<open>offset = address mod 256\<close>, if \<open>offset + numBytes\<close> is more than 256,
  spiWriteData puts exactly two page-program transactions on the bus: the first
  \<open>256 - offset\<close> bytes at \<open>address\<close>, then the remaining bytes at
  \<open>address + (256 - offset)\<close> (a 32-bit sum, of which the low 24 bits go out), and the two
  payloads, in order, are the original payload \<open>data[0 .. numBytes - 1]\<close>. This holds for
  every payload of up to 65280 bytes, more than the data space of the controller can hold,
  and for every call of writeData with the SPI flash technology selected, whatever was
  typed: writeData returns, and the at most 32 bytes it keeps go out in two page programs.
\<close>

theorem spiWriteData_splits_at_page_boundary:
  "(256 < unat address mod 256 + unat numBytes \<and> unat numBytes \<le> 65280 \<longrightarrow>
      page_programs (emitted s (spiWriteData address data numBytes s)) =
           [[SPI_CMD_PAGE_PROGRAM, ucast (drop_bit 16 address AND 0xFF),
             ucast (drop_bit 8 address AND 0xFF), ucast (address AND 0xFF)]
              @ take (256 - unat address mod 256) data,
            [SPI_CMD_PAGE_PROGRAM,
             ucast (drop_bit 16 (address + of_nat (256 - unat address mod 256)) AND 0xFF),
             ucast (drop_bit 8 (address + of_nat (256 - unat address mod 256)) AND 0xFF),
             ucast ((address + of_nat (256 - unat address mod 256)) AND 0xFF)]
              @ take (unat numBytes - (256 - unat address mod 256))
                  (drop (256 - unat address mod 256) data)] \<and>
      take (256 - unat address mod 256) data
           @ take (unat numBytes - (256 - unat address mod 256))
               (drop (256 - unat address mod 256) data)
           = take (unat numBytes) data) \<and>
   (currentMemoryType t = MEM_SPI_FLASH \<and>
    256 < unat address mod 256 + length (take 32 tokens) \<longrightarrow>
      (\<exists>t'. writeData address tokens t = Some t' \<and>
         page_programs (emitted (board t) (board t')) =
           [[SPI_CMD_PAGE_PROGRAM, ucast (drop_bit 16 address AND 0xFF),
             ucast (drop_bit 8 address AND 0xFF), ucast (address AND 0xFF)]
              @ take (256 - unat address mod 256) (take 32 tokens),
            [SPI_CMD_PAGE_PROGRAM,
             ucast (drop_bit 16 (address + of_nat (256 - unat address mod 256)) AND 0xFF),
             ucast (drop_bit 8 (address + of_nat (256 - unat address mod 256)) AND 0xFF),
             ucast ((address + of_nat (256 - unat address mod 256)) AND 0xFF)]
              @ drop (256 - unat address mod 256) (take 32 tokens)] \<and>
         take (256 - unat address mod 256) (take 32 tokens)
           @ drop (256 - unat address mod 256) (take 32 tokens) = take 32 tokens))"
proof (rule conjI; rule impI)
  assume h: "256 < unat address mod 256 + unat numBytes \<and> unat numBytes \<le> 65280"
  hence cross: "256 < unat address mod 256 + unat numBytes"
    by simp
  have "unat address mod 256 < 256"
    by simp
  with h have fits: "unat address mod 256 + unat numBytes < 65536"
    by linarith
  show "page_programs (emitted s (spiWriteData address data numBytes s)) =
           [[SPI_CMD_PAGE_PROGRAM, ucast (drop_bit 16 address AND 0xFF),
             ucast (drop_bit 8 address AND 0xFF), ucast (address AND 0xFF)]
              @ take (256 - unat address mod 256) data,
            [SPI_CMD_PAGE_PROGRAM,
             ucast (drop_bit 16 (address + of_nat (256 - unat address mod 256)) AND 0xFF),
             ucast (drop_bit 8 (address + of_nat (256 - unat address mod 256)) AND 0xFF),
             ucast ((address + of_nat (256 - unat address mod 256)) AND 0xFF)]
              @ take (unat numBytes - (256 - unat address mod 256))
                  (drop (256 - unat address mod 256) data)] \<and>
      take (256 - unat address mod 256) data
           @ take (unat numBytes - (256 - unat address mod 256))
               (drop (256 - unat address mod 256) data)
           = take (unat numBytes) data"
    by (rule spiWriteData_split[OF cross fits])
next
  assume h: "currentMemoryType t = MEM_SPI_FLASH \<and>
             256 < unat address mod 256 + length (take 32 tokens)"
  define data where "data = take 32 tokens"
  define n :: uint where "n = of_nat (length data)"
  define k where "k = 256 - unat address mod 256"
  have n: "unat n = length data"
    unfolding n_def data_def by (rule kept_tokens)
  have cross: "256 < unat address mod 256 + unat n"
    using h by (simp add: n data_def)
  have "unat address mod 256 < 256" and "length (take 32 tokens) \<le> 32"
    by simp_all
  hence fits: "unat address mod 256 + unat n < 65536"
    unfolding n data_def by linarith
  have w: "writeData address tokens t = Some (t\<lparr>board := spiWriteData address data n (board t)\<rparr>)"
    using h by (simp add: writeData_def Let_def on_board_def data_def n_def)
  have rest: "take (unat n - k) (drop k data) = drop k data"
    by (simp add: n)
  note sp = spiWriteData_split[OF cross fits, where s = "board t" and data = data, folded k_def, unfolded rest]
  show "\<exists>t'. writeData address tokens t = Some t' \<and>
         page_programs (emitted (board t) (board t')) =
           [[SPI_CMD_PAGE_PROGRAM, ucast (drop_bit 16 address AND 0xFF),
             ucast (drop_bit 8 address AND 0xFF), ucast (address AND 0xFF)]
              @ take (256 - unat address mod 256) (take 32 tokens),
            [SPI_CMD_PAGE_PROGRAM,
             ucast (drop_bit 16 (address + of_nat (256 - unat address mod 256)) AND 0xFF),
             ucast (drop_bit 8 (address + of_nat (256 - unat address mod 256)) AND 0xFF),
             ucast ((address + of_nat (256 - unat address mod 256)) AND 0xFF)]
              @ drop (256 - unat address mod 256) (take 32 tokens)] \<and>
         take (256 - unat address mod 256) (take 32 tokens)
           @ drop (256 - unat address mod 256) (take 32 tokens) = take 32 tokens"
    unfolding w k_def[symmetric] data_def[symmetric]
    using sp by simp
qed

theorem spiWriteData_splits_at_page_boundary_witness:
  "page_programs (emitted (setup_hw bench)
                    (spiWriteData 0xF0 (replicate 32 0x5A) 32 (setup_hw bench))) =
     [[0x02, 0x00, 0x00, 0xF0] @ replicate 16 0x5A, [0x02, 0x00, 0x01, 0x00] @ replicate 16 0x5A] \<and>
   (\<exists>t'. writeData 0xF0 (replicate 40 0x5A) spi_session = Some t' \<and>
      page_programs (emitted (board spi_session) (board t')) =
     [[0x02, 0x00, 0x00, 0xF0] @ replicate 16 0x5A, [0x02, 0x00, 0x01, 0x00] @ replicate 16 0x5A])"
proof -
  have h1: "256 < unat (0xF0 :: ulong) mod 256 + unat (32 :: uint) \<and> unat (32 :: uint) \<le> 65280"
    by simp
  have h2: "currentMemoryType spi_session = MEM_SPI_FLASH \<and>
            256 < unat (0xF0 :: ulong) mod 256 + length (take 32 (replicate 40 (0x5A :: byte)))"
    by (simp add: spi_session_def)
  note t = spiWriteData_splits_at_page_boundary [where address = "0xF0" and numBytes = "32" and data = "replicate 32 0x5A"
                and s = "setup_hw bench" and t = spi_session and tokens = "replicate 40 0x5A"]
  from t h1 have a: "page_programs (emitted (setup_hw bench)
                    (spiWriteData 0xF0 (replicate 32 0x5A) 32 (setup_hw bench))) =
     [[0x02, 0x00, 0x00, 0xF0] @ replicate 16 0x5A, [0x02, 0x00, 0x01, 0x00] @ replicate 16 0x5A]"
    by simp
  from t h2 have b: "\<exists>t'. writeData 0xF0 (replicate 40 0x5A) spi_session = Some t' \<and>
      page_programs (emitted (board spi_session) (board t')) =
     [[0x02, 0x00, 0x00, 0xF0] @ replicate 16 0x5A, [0x02, 0x00, 0x01, 0x00] @ replicate 16 0x5A]"
    by simp blast
  from a b show ?thesis ..
qed

text \<open>
  Claim C7. The claim is that a page write polls the write-in-progress bit until it reads
  clear. \<^verbatim>\<open>spiWritePage\<close> calls \<^verbatim>\<open>waitForSpiReady()\<close> once and drops what it returns:
  against a flash that keeps reporting write-in-progress the write still ends after one
  status read with \<open>WriteComplete\<close>, and in a split write the second page program follows
  that single read.
\<close>

theorem spiWritePage_does_not_poll:
  "emitted busy_flash (spiWritePage 0 [0xAB] 1 busy_flash) =
     [DigitalWrite SPI_CS_PIN False, SpiTransfer 0x06 0x01, DigitalWrite SPI_CS_PIN True,
      Delay 1,
      DigitalWrite SPI_CS_PIN False, SpiTransfer 0x02 0x01, SpiTransfer 0x00 0x01,
      SpiTransfer 0x00 0x01, SpiTransfer 0x00 0x01, SpiTransfer 0xAB 0x01,
      DigitalWrite SPI_CS_PIN True,
      DigitalWrite SPI_CS_PIN False, SpiTransfer 0x05 0x01, SpiTransfer 0x00 0x01,
      DigitalWrite SPI_CS_PIN True] \<and>
   serial (spiWritePage 0 [0xAB] 1 busy_flash) = [WriteComplete] \<and>
   spi_transactions None (emitted busy_flash (spiWriteData 0xFF [0xAB, 0xCD] 2 busy_flash)) =
     [[0x06], [0x02, 0x00, 0x00, 0xFF, 0xAB], [0x05, 0x00],
      [0x06], [0x02, 0x00, 0x01, 0x00, 0xCD], [0x05, 0x00]] \<and>
   serial (spiWriteData 0xFF [0xAB, 0xCD] 2 busy_flash) =
     [BoundaryWarning, WriteComplete, WriteComplete]"
  by (simp add: emitted_def spiWritePage_trace spiWritePage_frame spiWriteData_def Let_def
      spi_transactions_burst println_def busy_flash_def setup_hw_def bench_def digitalWrite_def
      emit_def)

section \<open>EEPROM: page-safe chunking\<close>

lemma wire_eqs:
  "wireBeginTransmission a s = s\<lparr>trace := trace s @ [WireBegin a]\<rparr>"
  "wireWrite b s = s\<lparr>trace := trace s @ [WireWrite b]\<rparr>"
  "wireEndTransmission s =
     (wire_end_src s (wire_ends s),
      s\<lparr>wire_ends := Suc (wire_ends s), trace := trace s @ [WireEnd (wire_end_src s (wire_ends s))]\<rparr>)"
  by (simp_all add: wireBeginTransmission_def wireWrite_def wireEndTransmission_def emit_def)

lemma fold_wireWrite:
  "fold wireWrite xs s = s\<lparr>trace := trace s @ map WireWrite xs\<rparr>"
  by (induction xs arbitrary: s) (simp_all add: wire_eqs)

lemma wire_transactions_writes:
  "wire_transactions (Some (a, bs)) (map WireWrite xs @ rest) =
     wire_transactions (Some (a, bs @ xs)) rest"
  by (induction xs arbitrary: bs) simp_all

lemma wire_targets_append: "wire_targets (xs @ ys) = wire_targets xs @ wire_targets ys"
  by (induction xs rule: wire_targets.induct) simp_all

lemma wire_targets_writes: "wire_targets (map WireWrite xs) = []"
  by (induction xs) simp_all

lemma chunk_arith:
  fixes numBytes bytesWritten :: uint and address :: ulong
  assumes lt: "bytesWritten < numBytes"
  defines "po \<equiv> (ucast ((address + ucast bytesWritten) mod 8) :: uint)"
  shows "unat po = unat (address + ucast bytesWritten) mod 8"
    and "unat (min (8 - po) (numBytes - bytesWritten)) = min (8 - unat po) (unat numBytes - unat bytesWritten)"
    and "unat (bytesWritten + min (8 - po) (numBytes - bytesWritten))
           = unat bytesWritten + unat (min (8 - po) (numBytes - bytesWritten))"
    and "unat bytesWritten < unat numBytes"
proof -
  have "unat ((address + ucast bytesWritten) mod 8) = unat (address + ucast bytesWritten) mod 8"
    by (simp add: unat_mod)
  moreover from this have "unat ((address + ucast bytesWritten) mod 8) < 8"
    by simp
  ultimately show po: "unat po = unat (address + ucast bytesWritten) mod 8"
    by (simp add: po_def unsigned_ucast_eq take_bit_eq_mod)
  hence po8: "unat po < 8" by simp
  have a: "unat (8 - po) = 8 - unat po"
    using po8 by (simp add: unat_sub word_le_nat_alt)
  have b: "unat (numBytes - bytesWritten) = unat numBytes - unat bytesWritten"
    using lt by (simp add: unat_sub word_le_nat_alt word_less_nat_alt)
  show m: "unat (min (8 - po) (numBytes - bytesWritten))
               = min (8 - unat po) (unat numBytes - unat bytesWritten)"
    by (simp add: min_def word_le_nat_alt a b)
  show lt': "unat bytesWritten < unat numBytes"
    using lt by (simp add: word_less_nat_alt)
  have "unat bytesWritten + unat (min (8 - po) (numBytes - bytesWritten)) \<le> unat numBytes"
    using lt' po8 by (simp add: m)
  hence "unat bytesWritten + unat (min (8 - po) (numBytes - bytesWritten)) < 2 ^ LENGTH(16)"
    using unsigned_less [of numBytes, where ?'a = nat] by linarith
  thus "unat (bytesWritten + min (8 - po) (numBytes - bytesWritten))
             = unat bytesWritten + unat (min (8 - po) (numBytes - bytesWritten))"
    by (simp only: unat_add_lem)
qed

lemma low_byte_mod8: "unat (ucast ((a :: ulong) AND 0xFF) :: byte) mod 8 = unat a mod 8"
proof -
  have "(a AND 0xFF) = take_bit 8 a"
    by (simp add: take_bit_eq_mask mask_eq_exp_minus_1)
  hence "unat (ucast (a AND 0xFF) :: byte) = unat a mod 256"
    by (simp add: unsigned_ucast_eq unsigned_take_bit_eq take_bit_eq_mod unat_mod)
  thus ?thesis
    by (simp add: mod_mod_cancel)
qed

lemma i2cWriteData_loop_stop:
  "\<not> bytesWritten < numBytes \<Longrightarrow>
   i2cWriteData_loop dev address u16 data numBytes bytesWritten s = s"
  by (subst i2cWriteData_loop.simps) simp

lemma i2cWriteData_loop_step:
  "bytesWritten < numBytes \<Longrightarrow>
   i2cWriteData_loop dev address u16 data numBytes bytesWritten s =
   i2cWriteData_loop dev address u16 data numBytes
     (bytesWritten + min (8 - ucast ((address + ucast bytesWritten) mod 8)) (numBytes - bytesWritten))
     (s\<lparr>wire_ends := Suc (wire_ends s),
        trace := trace s @ [WireBegin dev] @
          (if u16 then [WireWrite (ucast (drop_bit 8 (address + ucast bytesWritten) AND 0xFF))] else []) @
          [WireWrite (ucast ((address + ucast bytesWritten) AND 0xFF))] @
          map WireWrite
            (take (unat (min (8 - ucast ((address + ucast bytesWritten) mod 8) :: uint)
                             (numBytes - bytesWritten)))
               (drop (unat bytesWritten) data)) @
          [WireEnd (wire_end_src s (wire_ends s)), Delay 5]\<rparr>)"
  by (subst i2cWriteData_loop.simps)
     (simp add: Let_def wire_eqs fold_wireWrite delay_def emit_def)

lemma i2cWriteData_loop_trace:
  "\<exists>evs. trace (i2cWriteData_loop dev address u16 data numBytes bytesWritten s) = trace s @ evs \<and>
         (\<forall>t \<in> set (wire_transactions None evs). chunk_in_page u16 (snd t)) \<and>
         set (wire_targets evs) \<subseteq> {dev}"
proof (induction "unat numBytes - unat bytesWritten" arbitrary: bytesWritten s rule: less_induct)
  case less
  show ?case
  proof (cases "bytesWritten < numBytes")
    case False
    thus ?thesis by (simp add: i2cWriteData_loop_stop)
  next
    case True
    define po :: uint where "po = ucast ((address + ucast bytesWritten) mod 8)"
    define btw where "btw = min (8 - po) (numBytes - bytesWritten)"
    define payload where "payload = take (unat btw) (drop (unat bytesWritten) data)"
    define lo :: byte where "lo = ucast ((address + ucast bytesWritten) AND 0xFF)"
    define hdr where "hdr = (if u16 then [ucast (drop_bit 8 (address + ucast bytesWritten) AND 0xFF)] else []) @ [lo]"
    define chunk where "chunk = [WireBegin dev] @ map WireWrite hdr @ map WireWrite payload @
          [WireEnd (wire_end_src s (wire_ends s)), Delay 5]"
    define s1 where "s1 = s\<lparr>wire_ends := Suc (wire_ends s), trace := trace s @ chunk\<rparr>"
    note ar = chunk_arith(1-3)[OF True, of address, folded po_def, folded btw_def] chunk_arith(4)[OF True]
    have step: "i2cWriteData_loop dev address u16 data numBytes bytesWritten s =
                i2cWriteData_loop dev address u16 data numBytes (bytesWritten + btw) s1"
      using i2cWriteData_loop_step[OF True, of dev address u16 data s]
      by (simp add: s1_def chunk_def hdr_def lo_def payload_def btw_def po_def)
    have po8: "unat po < 8" using ar(1) by simp
    have pos: "0 < unat btw" using ar(2,4) po8 by simp
    have "unat numBytes - unat (bytesWritten + btw) < unat numBytes - unat bytesWritten"
      using ar(3,4) pos by arith
    from less[OF this, of s1] obtain evs where
      tr: "trace (i2cWriteData_loop dev address u16 data numBytes (bytesWritten + btw) s1) = trace s1 @ evs"
      and ok: "\<forall>t \<in> set (wire_transactions None evs). chunk_in_page u16 (snd t)"
      and tg: "set (wire_targets evs) \<subseteq> {dev}"
      by blast
    have parse: "wire_transactions None (chunk @ evs) = (dev, hdr @ payload) # wire_transactions None evs"
      by (simp add: chunk_def wire_transactions_writes)
    have "length payload \<le> unat btw" by (simp add: payload_def)
    moreover have "unat lo mod 8 = unat po"
      by (simp add: lo_def low_byte_mod8 ar)
    moreover have "unat btw \<le> 8 - unat po" using ar(2) by simp
    moreover note po8
    ultimately have here: "chunk_in_page u16 (hdr @ payload)"
      by (auto simp: chunk_in_page_def hdr_def nth_append)
    have tgs: "set (wire_targets (chunk @ evs)) \<subseteq> {dev}"
      using tg by (simp add: chunk_def wire_targets_append wire_targets_writes)
    show ?thesis
      apply (rule exI[of _ "chunk @ evs"])
      using tr ok here tgs
      by (simp add: step parse s1_def)
  qed
qed

text \<open>
  Claim C4. For every device address, start address, buffer and length, every write
  transaction that i2cWriteData puts on the bus after the presence probe is a chunk that
  stays inside one 8-byte page: its start address modulo 8 plus its payload length is at
  most 8.
\<close>

theorem i2cWriteData_chunks_stay_in_page:
  "\<forall>t \<in> set (tl (wire_transactions None (emitted s (i2cWriteData dev address data numBytes s)))).
      chunk_in_page (address > 0xFF) (snd t)"
proof (cases "wire_end_src s (wire_ends s) = 0")
  case False
  thus ?thesis
    by (simp add: i2cWriteData_def Let_def wire_eqs println_def emitted_def)
next
  case True
  define s1 where "s1 = s\<lparr>wire_ends := Suc (wire_ends s),
                           trace := trace s @ [WireBegin dev, WireEnd (wire_end_src s (wire_ends s))]\<rparr>"
  obtain evs where
    tr: "trace (i2cWriteData_loop dev address (address > 0xFF) data numBytes 0 s1) = trace s1 @ evs"
    and ok: "\<forall>t \<in> set (wire_transactions None evs). chunk_in_page (address > 0xFF) (snd t)"
    using i2cWriteData_loop_trace[of dev address "address > 0xFF" data numBytes 0 s1] by blast
  have "emitted s (i2cWriteData dev address data numBytes s) =
          [WireBegin dev, WireEnd (wire_end_src s (wire_ends s))] @ evs"
    using True tr by (simp add: i2cWriteData_def Let_def wire_eqs println_def emitted_def s1_def)
  with ok show ?thesis
    by simp
qed

theorem i2cWriteData_chunks_stay_in_page_witness:
  "wire_transactions None
     (emitted (setup_hw eeprom_bench)
        (i2cWriteData 0x50 5 [1, 2, 3, 4, 5, 6, 7, 8, 9, 10] 10 (setup_hw eeprom_bench))) =
     [(0x50, []), (0x50, [5, 1, 2, 3]), (0x50, [8, 4, 5, 6, 7, 8, 9, 10])] \<and>
   chunk_in_page False [5, 1, 2, 3] \<and>
   chunk_in_page False [8, 4, 5, 6, 7, 8, 9, 10]"
proof -
  have run: "wire_transactions None
     (emitted (setup_hw eeprom_bench)
        (i2cWriteData 0x50 5 [1, 2, 3, 4, 5, 6, 7, 8, 9, 10] 10 (setup_hw eeprom_bench))) =
     [(0x50, []), (0x50, [5, 1, 2, 3]), (0x50, [8, 4, 5, 6, 7, 8, 9, 10])]"
    by (simp add: i2cWriteData_def Let_def wire_eqs println_def emitted_def
        i2cWriteData_loop_step i2cWriteData_loop_stop eeprom_bench_def setup_hw_def bench_def
        digitalWrite_def emit_def)
  note t = i2cWriteData_chunks_stay_in_page
             [where dev = "0x50" and address = "5" and data = "[1, 2, 3, 4, 5, 6, 7, 8, 9, 10]"
                and numBytes = "10" and s = "setup_hw eeprom_bench", unfolded run]
  from t have "chunk_in_page False [5, 1, 2, 3] \<and> chunk_in_page False [8, 4, 5, 6, 7, 8, 9, 10]"
    by simp
  with run show ?thesis
    by (simp only: simp_thms)
qed

section \<open>EEPROM: the bus address\<close>

lemma talks_refl: "talks_only_to dev s s"
  by (simp add: talks_only_to_def)

lemma talks_trans:
  "talks_only_to dev s s1 \<Longrightarrow> talks_only_to dev s1 s2 \<Longrightarrow> talks_only_to dev s s2"
  by (auto simp: talks_only_to_def wire_targets_append)

lemma talks_ext:
  "trace s' = trace s @ evs \<Longrightarrow> set (wire_targets evs) \<subseteq> {dev} \<Longrightarrow> talks_only_to dev s s'"
  by (auto simp: talks_only_to_def)

lemma talks_println: "talks_only_to dev s (println m s)"
  by (simp add: talks_only_to_def println_def)

lemma i2cWriteData_talks: "talks_only_to dev s (i2cWriteData dev address data numBytes s)"
proof (cases "wire_end_src s (wire_ends s) = 0")
  case False
  thus ?thesis
    by (auto simp: i2cWriteData_def Let_def wire_eqs println_def intro!: talks_ext)
next
  case True
  define s1 where "s1 = s\<lparr>wire_ends := Suc (wire_ends s),
                           trace := trace s @ [WireBegin dev, WireEnd (wire_end_src s (wire_ends s))]\<rparr>"
  obtain evs where
    tr: "trace (i2cWriteData_loop dev address (address > 0xFF) data numBytes 0 s1) = trace s1 @ evs"
    and tg: "set (wire_targets evs) \<subseteq> {dev}"
    using i2cWriteData_loop_trace[of dev address "address > 0xFF" data numBytes 0 s1] by blast
  have "trace (i2cWriteData dev address data numBytes s) =
          trace s @ [WireBegin dev, WireEnd (wire_end_src s (wire_ends s))] @ evs"
    using True tr by (simp add: i2cWriteData_def Let_def wire_eqs println_def s1_def)
  thus ?thesis
    using tg by (auto intro!: talks_ext simp: wire_targets_append)
qed

lemma i2cErase_loop_talks:
  "talks_only_to dev s (i2cErase_loop dev base bound dotEvery i s)"
proof (induction "bound - i" arbitrary: i s rule: less_induct)
  case less
  show ?case
  proof (cases "i < bound")
    case False
    thus ?thesis by (subst i2cErase_loop.simps) (simp add: talks_refl)
  next
    case True
    define s1 where "s1 = (let s = i2cWriteData dev (base + of_nat i) (replicate 8 0xFF) 8 s
                           in if i mod dotEvery = 0 then println ProgressDot s else s)"
    have a: "talks_only_to dev s s1"
      unfolding s1_def Let_def
      by (auto intro: talks_trans[OF i2cWriteData_talks talks_println] i2cWriteData_talks)
    have "bound - (i + 8) < bound - i" using True by arith
    from less[OF this, of s1] have b: "talks_only_to dev s1 (i2cErase_loop dev base bound dotEvery (i + 8) s1)" .
    have "i2cErase_loop dev base bound dotEvery i s = i2cErase_loop dev base bound dotEvery (i + 8) s1"
      using True by (subst i2cErase_loop.simps) (simp add: s1_def Let_def)
    with talks_trans[OF a b] show ?thesis by simp
  qed
qed

lemma i2cErase_talks: "talks_only_to dev s (i2cErase dev opt address s)"
  by (auto simp: i2cErase_def Let_def intro: talks_trans[OF i2cErase_loop_talks talks_println])

lemma i2cReadStatus_talks: "talks_only_to dev s (i2cReadStatus dev s)"
  by (auto simp: i2cReadStatus_def Let_def wire_eqs println_def intro!: talks_ext)

lemma wireReadInto_trace:
  "\<exists>evs. trace (snd (wireReadInto k j buffer s)) = trace s @ evs \<and> wire_targets evs = []"
proof (induction k arbitrary: j buffer s)
  case 0
  show ?case by simp
next
  case (Suc k)
  show ?case
  proof (cases "wire_rx s")
    case Nil
    thus ?thesis by (simp add: wireAvailable_def)
  next
    case (Cons b bs)
    from Suc[of "Suc j" "buffer[j := b]" "emit (WireRead b) (s\<lparr>wire_rx := bs\<rparr>)"]
    obtain evs where
      "trace (snd (wireReadInto k (Suc j) (buffer[j := b]) (emit (WireRead b) (s\<lparr>wire_rx := bs\<rparr>))))
         = trace s @ WireRead b # evs" "wire_targets evs = []"
      by (auto simp: emit_def)
    thus ?thesis
      using Cons by (auto simp: wireAvailable_def wireRead_def intro!: exI[of _ "WireRead b # evs"])
  qed
qed

lemma i2cReadChunk_talks:
  "talks_only_to dev s (snd (snd (i2cReadChunk dev address u16 numBytes i buffer s)))"
proof -
  define bytesToRead where "bytesToRead = min (16 :: uint) (numBytes - i)"
  define s1 where "s1 = wireRequestFrom dev bytesToRead (snd (wireEndTransmission
      (wireWrite (ucast ((address + ucast i) AND 0xFF))
        (if u16 then wireWrite (ucast (drop_bit 8 (address + ucast i) AND 0xFF))
                       (wireBeginTransmission dev s)
         else wireBeginTransmission dev s))))"
  have a: "talks_only_to dev s s1"
    by (auto simp: s1_def wire_eqs wireRequestFrom_def emit_def intro!: talks_ext)
  obtain evs where "trace (snd (wireReadInto (unat bytesToRead) 0 buffer s1)) = trace s1 @ evs"
    "wire_targets evs = []"
    using wireReadInto_trace by blast
  hence b: "talks_only_to dev s1 (snd (wireReadInto (unat bytesToRead) 0 buffer s1))"
    by (auto intro!: talks_ext)
  have "snd (snd (i2cReadChunk dev address u16 numBytes i buffer s))
          = snd (wireReadInto (unat bytesToRead) 0 buffer s1)"
    by (simp add: i2cReadChunk_def Let_def s1_def bytesToRead_def)
  with talks_trans[OF a b] show ?thesis by simp
qed

lemma i2cReadData_loop_talks:
  assumes "i2cReadData_loop dev address u16 numBytes i buffer dumped s = Some s'"
  shows "talks_only_to dev s s'"
  using assms
proof (induct rule: i2cReadData_loop.raw_induct[rotated 1, consumes 1, case_names step])
  case (step loop dev address u16 numBytes i buffer dumped s s')
  show ?case
  proof (cases "i < numBytes")
    case False
    with step(2) show ?thesis by (auto simp: talks_println)
  next
    case True
    with step(2) have "loop dev address u16 numBytes (i + 16)
            (fst (i2cReadChunk dev address u16 numBytes i buffer s))
            (dumped @ fst (snd (i2cReadChunk dev address u16 numBytes i buffer s)))
            (snd (snd (i2cReadChunk dev address u16 numBytes i buffer s))) = Some s'"
      by simp
    from talks_trans[OF i2cReadChunk_talks step(1)[OF this]] show ?thesis .
  qed
qed

lemma i2cReadData_talks:
  assumes "i2cReadData dev address numBytes s = Some s'"
  shows "talks_only_to dev s s'"
proof (cases "wire_end_src s (wire_ends s) = 0")
  case False
  with assms show ?thesis
    by (auto simp: i2cReadData_def Let_def wire_eqs println_def intro!: talks_ext)
next
  case True
  define s1 where "s1 = s\<lparr>wire_ends := Suc (wire_ends s),
                           trace := trace s @ [WireBegin dev, WireEnd (wire_end_src s (wire_ends s))]\<rparr>"
  have a: "talks_only_to dev s s1"
    by (auto simp: s1_def intro!: talks_ext)
  from assms True have "i2cReadData_loop dev address (address > 0xFF) numBytes 0
               (take 16 (stack_garbage s1 @ replicate 16 0)) [] s1 = Some s'"
    by (simp add: i2cReadData_def Let_def wire_eqs s1_def)
  from talks_trans[OF a i2cReadData_loop_talks[OF this]] show ?thesis .
qed


lemma talks_emitted:
  "talks_only_to dev s s' \<Longrightarrow> set (wire_targets (emitted s s')) \<subseteq> {dev}"
  by (auto simp: talks_only_to_def emitted_def)


















section \<open>NAND: the ready wait\<close>

lemma wait_loop_skip:
  assumes "\<forall>j<k. \<not> rb_src s (rb_reads s + j) \<and> \<not> 1000 < millis_src s (millis_calls s + j) - t"
  shows "waitForNandReady_loop t s =
         waitForNandReady_loop t (s\<lparr>rb_reads := rb_reads s + k, millis_calls := millis_calls s + k\<rparr>)"
  using assms
proof (induction k)
  case 0
  show ?case by simp
next
  case (Suc k)
  hence "waitForNandReady_loop t s =
         waitForNandReady_loop t (s\<lparr>rb_reads := rb_reads s + k, millis_calls := millis_calls s + k\<rparr>)"
    by simp
  also have "\<dots> = waitForNandReady_loop t
                     (s\<lparr>rb_reads := rb_reads s + Suc k, millis_calls := millis_calls s + Suc k\<rparr>)"
    using Suc.prems
    by (subst waitForNandReady_loop.simps) (simp add: digitalRead_RB_def millis_def)
  finally show ?case .
qed

lemma wait_loop_timeout:
  assumes "\<forall>j<k. \<not> rb_src s (rb_reads s + j) \<and> \<not> 1000 < millis_src s (millis_calls s + j) - t"
      and "\<not> rb_src s (rb_reads s + k)"
      and "1000 < millis_src s (millis_calls s + k) - t"
  shows "waitForNandReady_loop t s =
         Some (s\<lparr>rb_reads := rb_reads s + Suc k, millis_calls := millis_calls s + Suc k,
                 serial := serial s @ [Timeout]\<rparr>)"
  unfolding wait_loop_skip[OF assms(1)]
  using assms(2,3)
  by (subst waitForNandReady_loop.simps) (simp add: digitalRead_RB_def millis_def println_def)

lemma wait_timeout:
  assumes never: "\<forall>j. \<not> rb_src s (rb_reads s + j)"
      and late: "1000 < millis_src s (millis_calls s + 1 + k) - millis_src s (millis_calls s)"
      and first: "\<forall>j<k. \<not> 1000 < millis_src s (millis_calls s + 1 + j) - millis_src s (millis_calls s)"
  shows "waitForNandReady s =
         Some (s\<lparr>rb_reads := rb_reads s + k + 1, millis_calls := millis_calls s + k + 2,
                 serial := serial s @ [Timeout]\<rparr>)"
proof -
  have "waitForNandReady_loop (millis_src s (millis_calls s)) (s\<lparr>millis_calls := Suc (millis_calls s)\<rparr>) =
        Some ((s\<lparr>millis_calls := Suc (millis_calls s)\<rparr>)
               \<lparr>rb_reads := rb_reads (s\<lparr>millis_calls := Suc (millis_calls s)\<rparr>) + Suc k,
                millis_calls := millis_calls (s\<lparr>millis_calls := Suc (millis_calls s)\<rparr>) + Suc k,
                serial := serial (s\<lparr>millis_calls := Suc (millis_calls s)\<rparr>) @ [Timeout]\<rparr>)"
    using never late first by (intro wait_loop_timeout) simp_all
  thus ?thesis
    by (simp add: waitForNandReady_def millis_def)
qed

lemma digitalWrite_proj:
  "pins (digitalWrite p v s) = (pins s)(p := v)"
  "trace (digitalWrite p v s) = trace s @ [DigitalWrite p v]"
  "serial (digitalWrite p v s) = serial s"
  "nand_dev (digitalWrite p v s) = nand_dev s"
  "nand_we (digitalWrite p v s) = nand_we s"
  "nand_re (digitalWrite p v s) = nand_re s"
  "rb_src (digitalWrite p v s) = rb_src s"
  "rb_reads (digitalWrite p v s) = rb_reads s"
  "millis_src (digitalWrite p v s) = millis_src s"
  "millis_calls (digitalWrite p v s) = millis_calls s"
  by (simp_all add: digitalWrite_def emit_def)

lemma println_proj:
  "pins (println m s) = pins s"
  "trace (println m s) = trace s"
  "serial (println m s) = serial s @ [m]"
  "nand_dev (println m s) = nand_dev s"
  "nand_we (println m s) = nand_we s"
  "nand_re (println m s) = nand_re s"
  "rb_src (println m s) = rb_src s"
  "rb_reads (println m s) = rb_reads s"
  "millis_src (println m s) = millis_src s"
  "millis_calls (println m s) = millis_calls s"
  by (simp_all add: println_def)

lemma nandWriteByte_proj:
  "pins (nandWriteByte d s) = (pins s)(NAND_WE_PIN := True)"
  "trace (nandWriteByte d s) =
     trace s @ [NandBusOut d, DigitalWrite NAND_WE_PIN False, DelayMicroseconds 1,
                DigitalWrite NAND_WE_PIN True, DelayMicroseconds 1]"
  "serial (nandWriteByte d s) = serial s"
  "nand_dev (nandWriteByte d s) =
     nand_we s (pins s NAND_CE_PIN) (pins s NAND_CLE_PIN) (pins s NAND_ALE_PIN) d (nand_dev s)"
  "nand_we (nandWriteByte d s) = nand_we s"
  "nand_re (nandWriteByte d s) = nand_re s"
  "rb_src (nandWriteByte d s) = rb_src s"
  "rb_reads (nandWriteByte d s) = rb_reads s"
  "millis_src (nandWriteByte d s) = millis_src s"
  "millis_calls (nandWriteByte d s) = millis_calls s"
  by (simp_all add: nandWriteByte_eq)

lemma nandReadByte_proj:
  "fst (nandReadByte s) = fst (nand_re s (pins s NAND_CE_PIN) (nand_dev s))"
  "pins (snd (nandReadByte s)) = (pins s)(NAND_RE_PIN := True)"
  "trace (snd (nandReadByte s)) =
     trace s @ [DigitalWrite NAND_RE_PIN False, DelayMicroseconds 1,
                NandBusIn (fst (nand_re s (pins s NAND_CE_PIN) (nand_dev s))),
                DigitalWrite NAND_RE_PIN True, DelayMicroseconds 1]"
  "serial (snd (nandReadByte s)) = serial s"
  "nand_dev (snd (nandReadByte s)) = snd (nand_re s (pins s NAND_CE_PIN) (nand_dev s))"
  "nand_we (snd (nandReadByte s)) = nand_we s"
  "nand_re (snd (nandReadByte s)) = nand_re s"
  "rb_src (snd (nandReadByte s)) = rb_src s"
  "rb_reads (snd (nandReadByte s)) = rb_reads s"
  "millis_src (snd (nandReadByte s)) = millis_src s"
  "millis_calls (snd (nandReadByte s)) = millis_calls s"
  by (simp_all add: nandReadByte_eq)

lemma fold_nandWriteByte_proj:
  "pins (fold nandWriteByte xs s) p = (if xs \<noteq> [] \<and> p = NAND_WE_PIN then True else pins s p)"
  "serial (fold nandWriteByte xs s) = serial s"
  "nand_we (fold nandWriteByte xs s) = nand_we s"
  "nand_re (fold nandWriteByte xs s) = nand_re s"
  "rb_src (fold nandWriteByte xs s) = rb_src s"
  "rb_reads (fold nandWriteByte xs s) = rb_reads s"
  "millis_src (fold nandWriteByte xs s) = millis_src s"
  "millis_calls (fold nandWriteByte xs s) = millis_calls s"
  by (induction xs arbitrary: s; simp add: nandWriteByte_proj)+

lemmas nand_proj = digitalWrite_proj println_proj nandWriteByte_proj nandReadByte_proj(2-)
  fold_nandWriteByte_proj

lemma hexDump_loop_nand_frame:
  "rb_src (snd (hexDump_loop nandReadByte n s)) = rb_src s"
  "rb_reads (snd (hexDump_loop nandReadByte n s)) = rb_reads s"
  "millis_src (snd (hexDump_loop nandReadByte n s)) = millis_src s"
  "millis_calls (snd (hexDump_loop nandReadByte n s)) = millis_calls s"
  "serial (snd (hexDump_loop nandReadByte n s)) = serial s"
  "nand_we (snd (hexDump_loop nandReadByte n s)) = nand_we s"
  "nand_re (snd (hexDump_loop nandReadByte n s)) = nand_re s"
  by (induction n arbitrary: s; simp add: nandReadByte_proj Let_def)+



lemma wait_timeout_after:
  assumes never: "\<forall>j. \<not> rb_src s (rb_reads s + j)"
      and late: "1000 < millis_src s (millis_calls s + 1 + k) - millis_src s (millis_calls s)"
      and first: "\<forall>j<k. \<not> 1000 < millis_src s (millis_calls s + 1 + j) - millis_src s (millis_calls s)"
      and fr: "rb_src s1 = rb_src s" "rb_reads s1 = rb_reads s" "millis_src s1 = millis_src s"
              "millis_calls s1 = millis_calls s" "serial s1 = serial s"
  shows "waitForNandReady s1 =
           Some (s1\<lparr>rb_reads := rb_reads s + k + 1, millis_calls := millis_calls s + k + 2,
                    serial := serial s @ [Timeout]\<rparr>)"
proof -
  have "waitForNandReady s1 =
           Some (s1\<lparr>rb_reads := rb_reads s1 + k + 1, millis_calls := millis_calls s1 + k + 2,
                   serial := serial s1 @ [Timeout]\<rparr>)"
    using never late first by (intro wait_timeout) (simp_all add: fr)
  thus ?thesis by (simp add: fr)
qed

text \<open>
  Claim C8. Suppose the ready/busy input is low at every reading, and let \<open>k\<close> be the first
  reading of the clock inside the wait that lies more than 1000 ms after the start of the
  wait. Then waitForNandReady returns: it has polled the pin \<open>k + 1\<close> times, read the clock
  \<open>k + 2\<close> times, and printed the line \<open>Timeout\<close>; nothing else has changed. The timeout is a
  warning only: nandReset, nandReadData, nandErase and nandWriteData (when it gets past its
  boundary test) return as well, with the same number of polls, and carry on after the
  warning, so that \<open>Timeout\<close> is followed on the serial port by the usual last line of the
  operation.
\<close>

theorem nand_ready_wait_times_out:
  assumes never: "\<forall>j. \<not> rb_src s (rb_reads s + j)"
      and late: "1000 < millis_src s (millis_calls s + 1 + k) - millis_src s (millis_calls s)"
      and first: "\<forall>j<k. \<not> 1000 < millis_src s (millis_calls s + 1 + j) - millis_src s (millis_calls s)"
  shows "waitForNandReady s =
           Some (s\<lparr>rb_reads := rb_reads s + k + 1, millis_calls := millis_calls s + k + 2,
                   serial := serial s @ [Timeout]\<rparr>) \<and>
         (\<exists>s'. nandReset s = Some s' \<and> rb_reads s' = rb_reads s + k + 1 \<and>
               serial s' = serial s @ [Timeout, NandResetComplete]) \<and>
         (\<exists>s' bs. nandReadData address numBytes s = Some s' \<and> rb_reads s' = rb_reads s + k + 1 \<and>
               serial s' = serial s @ [Timeout, HexDump bs]) \<and>
         (\<exists>s' m. nandErase opt address s = Some s' \<and> rb_reads s' = rb_reads s + k + 1 \<and>
               serial s' = serial s @ [Timeout, m] \<and> (m = EraseFailed \<or> m = EraseSuccessful)) \<and>
         (nandWriteData address data numBytes s = Some (s\<lparr>serial := serial s @ [BoundaryViolation]\<rparr>) \<or>
          (\<exists>s' m. nandWriteData address data numBytes s = Some s' \<and> rb_reads s' = rb_reads s + k + 1 \<and>
               serial s' = serial s @ [Timeout, m] \<and> (m = ProgramFailed \<or> m = ProgramSuccessful)))"
proof (intro conjI)
  note w = wait_timeout_after[OF never late first]
  show "waitForNandReady s =
           Some (s\<lparr>rb_reads := rb_reads s + k + 1, millis_calls := millis_calls s + k + 2,
                   serial := serial s @ [Timeout]\<rparr>)"
    using assms by (rule wait_timeout)
  show "\<exists>s'. nandReset s = Some s' \<and> rb_reads s' = rb_reads s + k + 1 \<and>
               serial s' = serial s @ [Timeout, NandResetComplete]"
  proof -
    define s1 where "s1 = digitalWrite NAND_CLE_PIN False (nandWriteByte NAND_CMD_RESET
             (digitalWrite NAND_CLE_PIN True (digitalWrite NAND_CE_PIN False s)))"
    have fr: "rb_src s1 = rb_src s" "rb_reads s1 = rb_reads s" "millis_src s1 = millis_src s"
      "millis_calls s1 = millis_calls s" "serial s1 = serial s"
      by (simp_all add: s1_def nand_proj)
    have "nandReset s = map_option (\<lambda>s. println NandResetComplete (digitalWrite NAND_CE_PIN True s))
                          (waitForNandReady s1)"
      by (simp only: nandReset_def Let_def s1_def)
    thus ?thesis
      by (simp add: w[OF fr] nand_proj)
  qed
  show "\<exists>s' bs. nandReadData address numBytes s = Some s' \<and> rb_reads s' = rb_reads s + k + 1 \<and>
               serial s' = serial s @ [Timeout, HexDump bs]"
  proof -
    define s1 where "s1 =
      (let pageSize = (512 :: uint);
           page = (ucast (address div ucast pageSize) :: uint);
           offset = (ucast (address mod ucast pageSize) :: uint);
           s = digitalWrite NAND_CE_PIN False s;
           s = digitalWrite NAND_CLE_PIN True s;
           s = nandWriteByte NAND_CMD_READ s;
           s = digitalWrite NAND_CLE_PIN False s;
           s = digitalWrite NAND_ALE_PIN True s;
           s = nandWriteByte (ucast (offset AND 0xFF)) s;
           s = nandWriteByte (ucast (drop_bit 8 offset AND 0xFF)) s;
           s = nandWriteByte (ucast (page AND 0xFF)) s;
           s = nandWriteByte (ucast (drop_bit 8 page AND 0xFF)) s;
           s = nandWriteByte (ucast (drop_bit 16 page AND 0xFF)) s;
           s = digitalWrite NAND_ALE_PIN False s;
           s = digitalWrite NAND_CLE_PIN True s;
           s = nandWriteByte NAND_CMD_READ_CONFIRM s;
           s = digitalWrite NAND_CLE_PIN False s
       in s)"
    have fr: "rb_src s1 = rb_src s" "rb_reads s1 = rb_reads s" "millis_src s1 = millis_src s"
      "millis_calls s1 = millis_calls s" "serial s1 = serial s"
      by (simp_all add: s1_def Let_def nand_proj)
    have eq: "nandReadData address numBytes s =
             map_option (\<lambda>s. let s = hexDump nandReadByte numBytes s
                             in digitalWrite NAND_CE_PIN True s)
               (waitForNandReady s1)"
      by (simp only: nandReadData_def Let_def s1_def)
    define s2 where "s2 = s1\<lparr>rb_reads := rb_reads s + k + 1, millis_calls := millis_calls s + k + 2,
                    serial := serial s @ [Timeout]\<rparr>"
    have s2: "rb_reads s2 = rb_reads s + k + 1" "serial s2 = serial s @ [Timeout]"
      by (simp_all add: s2_def)
    have res: "nandReadData address numBytes s =
                 Some (digitalWrite NAND_CE_PIN True (hexDump nandReadByte numBytes s2))"
      unfolding eq w[OF fr] by (simp only: option.map Let_def s2_def)
    show ?thesis
      unfolding res using s2
      by (simp add: nand_proj hexDump_def Let_def hexDump_loop_nand_frame)
  qed
  show "\<exists>s' m. nandErase opt address s = Some s' \<and> rb_reads s' = rb_reads s + k + 1 \<and>
               serial s' = serial s @ [Timeout, m] \<and> (m = EraseFailed \<or> m = EraseSuccessful)"
  proof -
    define s1 where "s1 =
      (let s = digitalWrite NAND_CE_PIN False s;
           s = digitalWrite NAND_CLE_PIN True s;
           s = nandWriteByte NAND_CMD_ERASE s;
           s = digitalWrite NAND_CLE_PIN False s;
           s = (if opt = CHR ''1'' \<or> opt = CHR ''2''
                then
                  (let blockSize = (16 * 1024 :: uint);
                       block = (ucast (address div ucast blockSize) :: uint);
                       s = digitalWrite NAND_ALE_PIN True s;
                       s = nandWriteByte (ucast (block AND 0xFF)) s;
                       s = nandWriteByte (ucast (drop_bit 8 block AND 0xFF)) s;
                       s = nandWriteByte (ucast (drop_bit 16 block AND 0xFF)) s;
                       s = digitalWrite NAND_ALE_PIN False s
                   in s)
                else s);
           s = digitalWrite NAND_CLE_PIN True s;
           s = nandWriteByte NAND_CMD_ERASE_CONFIRM s;
           s = digitalWrite NAND_CLE_PIN False s
       in s)"
    have fr: "rb_src s1 = rb_src s" "rb_reads s1 = rb_reads s" "millis_src s1 = millis_src s"
      "millis_calls s1 = millis_calls s" "serial s1 = serial s"
      by (simp_all add: s1_def Let_def nand_proj)
    have eq: "nandErase opt address s =
             map_option
               (\<lambda>s. let s = digitalWrite NAND_CLE_PIN True s;
                        s = nandWriteByte NAND_CMD_READ_STATUS s;
                        s = digitalWrite NAND_CLE_PIN False s;
                        r = nandReadByte s;
                        status = fst r;
                        s = snd r;
                        s = digitalWrite NAND_CE_PIN True s
                    in if status AND 0x01 \<noteq> 0
                       then println EraseFailed s
                       else println EraseSuccessful s)
               (waitForNandReady s1)"
      by (simp only: nandErase_def Let_def s1_def)

    define s2 where "s2 = s1\<lparr>rb_reads := rb_reads s + k + 1, millis_calls := millis_calls s + k + 2,
                    serial := serial s @ [Timeout]\<rparr>"
    define s3 where "s3 = digitalWrite NAND_CLE_PIN False
                            (nandWriteByte NAND_CMD_READ_STATUS (digitalWrite NAND_CLE_PIN True s2))"
    define s4 where "s4 = digitalWrite NAND_CE_PIN True (snd (nandReadByte s3))"
    have s4: "rb_reads s4 = rb_reads s + k + 1" "serial s4 = serial s @ [Timeout]"
      by (simp_all add: s4_def s3_def s2_def nand_proj)
    have res: "nandErase opt address s =
            Some (if fst (nandReadByte s3) AND 0x01 \<noteq> 0
                  then println EraseFailed s4 else println EraseSuccessful s4)"
      unfolding eq w[OF fr] by (simp only: option.map Let_def s4_def s3_def s2_def)
    show ?thesis
      unfolding res using s4 by (cases "fst (nandReadByte s3) AND 0x01 \<noteq> 0") (simp_all add: nand_proj)
  qed
  show "nandWriteData address data numBytes s = Some (s\<lparr>serial := serial s @ [BoundaryViolation]\<rparr>) \<or>
          (\<exists>s' m. nandWriteData address data numBytes s = Some s' \<and> rb_reads s' = rb_reads s + k + 1 \<and>
               serial s' = serial s @ [Timeout, m] \<and> (m = ProgramFailed \<or> m = ProgramSuccessful))"
  proof (cases "(512 :: uint) < (ucast (address mod ucast (512 :: uint)) :: uint) + numBytes")
    case True
    thus ?thesis
      by (simp add: nandWriteData_def Let_def println_def)
  next
    case False
    define s1 where "s1 =
          (let pageSize = (512 :: uint);
               page = (ucast (address div ucast pageSize) :: uint);
               offset = (ucast (address mod ucast pageSize) :: uint);
               s = digitalWrite NAND_CE_PIN False s;
               s = digitalWrite NAND_CLE_PIN True s;
               s = nandWriteByte NAND_CMD_PROGRAM s;
               s = digitalWrite NAND_CLE_PIN False s;
               s = digitalWrite NAND_ALE_PIN True s;
               s = nandWriteByte (ucast (offset AND 0xFF)) s;
               s = nandWriteByte (ucast (drop_bit 8 offset AND 0xFF)) s;
               s = nandWriteByte (ucast (page AND 0xFF)) s;
               s = nandWriteByte (ucast (drop_bit 8 page AND 0xFF)) s;
               s = nandWriteByte (ucast (drop_bit 16 page AND 0xFF)) s;
               s = digitalWrite NAND_ALE_PIN False s;
               s = fold nandWriteByte (take (unat numBytes) data) s;
               s = digitalWrite NAND_CLE_PIN True s;
               s = nandWriteByte NAND_CMD_PROGRAM_CONFIRM s;
               s = digitalWrite NAND_CLE_PIN False s
           in s)"
    have fr: "rb_src s1 = rb_src s" "rb_reads s1 = rb_reads s" "millis_src s1 = millis_src s"
      "millis_calls s1 = millis_calls s" "serial s1 = serial s"
      by (simp_all add: s1_def Let_def nand_proj)
    have eq: "nandWriteData address data numBytes s =
             map_option
               (\<lambda>s. let s = digitalWrite NAND_CLE_PIN True s;
                        s = nandWriteByte NAND_CMD_READ_STATUS s;
                        s = digitalWrite NAND_CLE_PIN False s;
                        r = nandReadByte s;
                        status = fst r;
                        s = snd r;
                        s = digitalWrite NAND_CE_PIN True s
                    in if status AND 0x01 \<noteq> 0
                       then println ProgramFailed s
                       else println ProgramSuccessful s)
               (waitForNandReady s1)"
      using False by (simp only: nandWriteData_def Let_def s1_def if_False)
    define s2 where "s2 = s1\<lparr>rb_reads := rb_reads s + k + 1, millis_calls := millis_calls s + k + 2,
                    serial := serial s @ [Timeout]\<rparr>"
    define s3 where "s3 = digitalWrite NAND_CLE_PIN False
                            (nandWriteByte NAND_CMD_READ_STATUS (digitalWrite NAND_CLE_PIN True s2))"
    define s4 where "s4 = digitalWrite NAND_CE_PIN True (snd (nandReadByte s3))"
    have s4: "rb_reads s4 = rb_reads s + k + 1" "serial s4 = serial s @ [Timeout]"
      by (simp_all add: s4_def s3_def s2_def nand_proj)
    have res: "nandWriteData address data numBytes s =
            Some (if fst (nandReadByte s3) AND 0x01 \<noteq> 0
                  then println ProgramFailed s4 else println ProgramSuccessful s4)"
      unfolding eq w[OF fr] by (simp only: option.map Let_def s4_def s3_def s2_def)
    have "\<exists>s' m. nandWriteData address data numBytes s = Some s' \<and> rb_reads s' = rb_reads s + k + 1 \<and>
               serial s' = serial s @ [Timeout, m] \<and> (m = ProgramFailed \<or> m = ProgramSuccessful)"
      unfolding res using s4 by (cases "fst (nandReadByte s3) AND 0x01 \<noteq> 0") (simp_all add: nand_proj)
    thus ?thesis ..
  qed
qed

theorem nand_ready_wait_times_out_witness:
  "waitForNandReady stuck_nand =
     Some (stuck_nand\<lparr>rb_reads := rb_reads stuck_nand + 2 + 1,
                       millis_calls := millis_calls stuck_nand + 2 + 2,
                       serial := serial stuck_nand @ [Timeout]\<rparr>) \<and>
   (\<exists>s'. nandReset stuck_nand = Some s' \<and> rb_reads s' = rb_reads stuck_nand + 2 + 1 \<and>
         serial s' = serial stuck_nand @ [Timeout, NandResetComplete])"
proof -
  have never: "\<forall>j. \<not> rb_src stuck_nand (rb_reads stuck_nand + j)"
    by (simp add: stuck_nand_def)
  have late: "1000 < millis_src stuck_nand (millis_calls stuck_nand + 1 + 2)
                       - millis_src stuck_nand (millis_calls stuck_nand)"
    by (simp add: stuck_nand_def setup_hw_def bench_def digitalWrite_def emit_def)
  have first: "\<forall>j<2. \<not> 1000 < millis_src stuck_nand (millis_calls stuck_nand + 1 + j)
                      - millis_src stuck_nand (millis_calls stuck_nand)"
  proof (intro allI impI)
    fix j :: nat assume "j < 2"
    hence "j = 0 \<or> j = 1" by arith
    thus "\<not> 1000 < millis_src stuck_nand (millis_calls stuck_nand + 1 + j)
                      - millis_src stuck_nand (millis_calls stuck_nand)"
      by (auto simp: stuck_nand_def setup_hw_def bench_def digitalWrite_def emit_def)
  qed
  from nand_ready_wait_times_out [OF never late first] never late first
  show ?thesis by blast
qed

section \<open>NAND: writing and reading back on the simulated device\<close>

lemma wait_loop_returns:
  assumes "waits_end s"
  shows "\<exists>s'. waitForNandReady_loop t s = Some s'"
proof -
  define stops where "stops k = (rb_src s (rb_reads s + k) \<or> 1000 < millis_src s (millis_calls s + k) - t)" for k
  from assms have "\<exists>k. stops k"
    unfolding waits_end_def stops_def by blast
  then obtain k where k: "stops k" and least: "\<forall>j<k. \<not> stops j"
    using exists_least_iff[of stops] by blast
  have skip: "\<forall>j<k. \<not> rb_src s (rb_reads s + j) \<and> \<not> 1000 < millis_src s (millis_calls s + j) - t"
    using least by (simp add: stops_def)
  show ?thesis
  proof (cases "rb_src s (rb_reads s + k)")
    case True
    have "waitForNandReady_loop t s =
          Some (s\<lparr>rb_reads := rb_reads s + Suc k, millis_calls := millis_calls s + k\<rparr>)"
      unfolding wait_loop_skip[OF skip]
      using True by (subst waitForNandReady_loop.simps) (simp add: digitalRead_RB_def)
    thus ?thesis by blast
  next
    case False
    with k have "1000 < millis_src s (millis_calls s + k) - t" by (simp add: stops_def)
    from wait_loop_timeout[OF skip False this] show ?thesis by blast
  qed
qed

lemma wait_returns:
  assumes "waits_end s"
  shows "\<exists>s'. waitForNandReady s = Some s'"
proof -
  have "waits_end (snd (millis s))"
    using assms by (simp add: waits_end_def millis_def)
  from wait_loop_returns[OF this] show ?thesis
    by (simp add: waitForNandReady_def)
qed


lemma waits_end_cong:
  "rb_src s' = rb_src s \<Longrightarrow> millis_src s' = millis_src s \<Longrightarrow> waits_end s' = waits_end s"
  by (simp add: waits_end_def)

lemma fold_nandWriteByte_dev:
  "nand_dev (fold nandWriteByte xs s) =
     fold (nand_we s (pins s NAND_CE_PIN) (pins s NAND_CLE_PIN) (pins s NAND_ALE_PIN)) xs (nand_dev s)"
  by (induction xs arbitrary: s) (simp_all add: nandWriteByte_proj)

lemma sim_data_in:
  "fold (sim_we False False False) xs d = d\<lparr>page_reg := page_reg d @ xs\<rparr>"
  by (induction xs arbitrary: d) (simp_all add: sim_we_def)

lemma sim_data_out:
  assumes "nand_re s = sim_re" "\<not> pins s NAND_CE_PIN" "mode (nand_dev s) = DataOutput"
  shows "fst (hexDump_loop nandReadByte n s) =
           map (\<lambda>i. cells (nand_dev s) (row_ptr (nand_dev s)) (col_ptr (nand_dev s) + i)) [0..<n]"
  using assms
proof (induction n arbitrary: s)
  case 0
  show ?case by simp
next
  case (Suc n)
  define s' where "s' = snd (nandReadByte s)"
  have r: "nand_re s c d = sim_re c d" for c d
    using Suc.prems(1) by simp
  have d': "nand_dev s' = (nand_dev s)\<lparr>col_ptr := Suc (col_ptr (nand_dev s))\<rparr>"
    and b: "fst (nandReadByte s) = cells (nand_dev s) (row_ptr (nand_dev s)) (col_ptr (nand_dev s))"
    using Suc.prems(2,3) by (simp_all add: s'_def nandReadByte_proj r sim_re_def)
  have k: "nand_re s' = sim_re" "\<not> pins s' NAND_CE_PIN"
    using Suc.prems(2) by (simp_all add: s'_def nandReadByte_proj Suc.prems(1))
  have "mode (nand_dev s') = DataOutput"
    using Suc.prems by (simp add: d')
  from Suc.IH[OF k this]
  have "fst (hexDump_loop nandReadByte n s') =
          map (\<lambda>i. cells (nand_dev s) (row_ptr (nand_dev s)) (col_ptr (nand_dev s) + Suc i)) [0..<n]"
    by (simp add: d')
  moreover have "[0..<Suc n] = 0 # map Suc [0..<n]"
    by (simp add: upt_conv_Cons map_Suc_upt del: upt_Suc)
  ultimately show ?case
    by (simp add: Let_def s'_def[symmetric] b comp_def del: upt_Suc)
qed

lemma nandWriteData_sim:
  fixes s :: "nand_sim hw"
  assumes we: "nand_we s = sim_we" and re: "nand_re s = sim_re" and live: "waits_end s"
      and ok: "\<not> (512 :: uint) < ucast (address mod ucast (512 :: uint)) + numBytes"
  shows "\<exists>s1. nandWriteData address data numBytes s = Some s1 \<and>
           nand_we s1 = sim_we \<and> nand_re s1 = sim_re \<and> waits_end s1 \<and>
           status_reg (nand_dev s1) = outcome_src (nand_dev s) (outcomes (nand_dev s)) \<and>
           last (serial s1) =
             (if outcome_src (nand_dev s) (outcomes (nand_dev s)) AND 0x01 \<noteq> 0
              then ProgramFailed else ProgramSuccessful) \<and>
           (outcome_src (nand_dev s) (outcomes (nand_dev s)) AND 0x01 = 0 \<longrightarrow>
              cells (nand_dev s1) =
                (\<lambda>r c. if r = sim_row (nand_address address) \<and>
                           sim_column (nand_address address) \<le> c \<and>
                           c < sim_column (nand_address address) + length (take (unat numBytes) data)
                        then take (unat numBytes) data ! (c - sim_column (nand_address address))
                        else cells (nand_dev s) r c))"
proof -
  define p where "p =
          (let pageSize = (512 :: uint);
               page = (ucast (address div ucast pageSize) :: uint);
               offset = (ucast (address mod ucast pageSize) :: uint);
               s = digitalWrite NAND_CE_PIN False s;
               s = digitalWrite NAND_CLE_PIN True s;
               s = nandWriteByte NAND_CMD_PROGRAM s;
               s = digitalWrite NAND_CLE_PIN False s;
               s = digitalWrite NAND_ALE_PIN True s;
               s = nandWriteByte (ucast (offset AND 0xFF)) s;
               s = nandWriteByte (ucast (drop_bit 8 offset AND 0xFF)) s;
               s = nandWriteByte (ucast (page AND 0xFF)) s;
               s = nandWriteByte (ucast (drop_bit 8 page AND 0xFF)) s;
               s = nandWriteByte (ucast (drop_bit 16 page AND 0xFF)) s;
               s = digitalWrite NAND_ALE_PIN False s;
               s = fold nandWriteByte (take (unat numBytes) data) s;
               s = digitalWrite NAND_CLE_PIN True s;
               s = nandWriteByte NAND_CMD_PROGRAM_CONFIRM s;
               s = digitalWrite NAND_CLE_PIN False s
           in s)"
  have eq: "nandWriteData address data numBytes s =
             map_option
               (\<lambda>s. let s = digitalWrite NAND_CLE_PIN True s;
                        s = nandWriteByte NAND_CMD_READ_STATUS s;
                        s = digitalWrite NAND_CLE_PIN False s;
                        r = nandReadByte s;
                        status = fst r;
                        s = snd r;
                        s = digitalWrite NAND_CE_PIN True s
                    in if status AND 0x01 \<noteq> 0
                       then println ProgramFailed s
                       else println ProgramSuccessful s)
               (waitForNandReady p)"
    using ok by (simp only: nandWriteData_def Let_def p_def if_False)
  have wex: "nand_we s c l a b d = sim_we c l a b d" for c l a b d
    using we by simp
  have frp: "nand_we p = sim_we" "nand_re p = sim_re" "rb_src p = rb_src s"
    "millis_src p = millis_src s" "\<not> pins p NAND_CE_PIN"
    by (simp_all add: p_def Let_def nand_proj we re)
  have devp: "nand_dev p =
          sim_program ((nand_dev s)\<lparr>mode := ProgramSetup, addr_reg := nand_address address,
                                     page_reg := take (unat numBytes) data\<rparr>)"
    by (simp add: p_def Let_def nand_proj fold_nandWriteByte_dev we sim_we_def sim_command_def
          sim_data_in nand_address_def)
  have "waits_end p"
    using live waits_end_cong[OF frp(3,4)] by simp
  then obtain w where W: "waitForNandReady p = Some w"
    using wait_returns by blast
  note wk = wait_keeps[OF W]
  define s3 where "s3 = digitalWrite NAND_CLE_PIN False
                          (nandWriteByte NAND_CMD_READ_STATUS (digitalWrite NAND_CLE_PIN True w))"
  define s4 where "s4 = digitalWrite NAND_CE_PIN True (snd (nandReadByte s3))"
  define st where "st = outcome_src (nand_dev s) (outcomes (nand_dev s))"
  have wew: "nand_we w c l a b d = sim_we c l a b d" for c l a b d
    by (simp add: wk frp)
  have rew: "nand_re s3 c d = sim_re c d" for c d
    by (simp add: s3_def nand_proj wk frp)
  have dev3: "nand_dev s3 = (nand_dev p)\<lparr>mode := StatusOutput\<rparr>"
    using frp(5) by (simp add: s3_def nand_proj wk frp(1) sim_we_def sim_command_def)
  have ce3: "\<not> pins s3 NAND_CE_PIN"
    using frp(5) by (simp add: s3_def nand_proj wk)
  have status: "fst (nandReadByte s3) = st"
    using ce3 by (simp add: nandReadByte_proj rew dev3 sim_re_def devp sim_program_def Let_def st_def)
  have dev4: "cells (nand_dev s4) = cells (nand_dev p)" "status_reg (nand_dev s4) = st"
    using ce3 by (simp_all add: s4_def nand_proj rew dev3 sim_re_def devp sim_program_def Let_def st_def)
  have fr4: "nand_we s4 = sim_we" "nand_re s4 = sim_re" "rb_src s4 = rb_src s"
    "millis_src s4 = millis_src s"
    by (simp_all add: s4_def s3_def nand_proj wk frp)
  have res: "nandWriteData address data numBytes s =
            Some (if st AND 0x01 \<noteq> 0 then println ProgramFailed s4 else println ProgramSuccessful s4)"
    unfolding eq W status[symmetric] by (simp only: option.map Let_def s4_def s3_def)
  have cellsp: "st AND 0x01 = 0 \<Longrightarrow> cells (nand_dev p) =
                (\<lambda>r c. if r = sim_row (nand_address address) \<and>
                           sim_column (nand_address address) \<le> c \<and>
                           c < sim_column (nand_address address) + length (take (unat numBytes) data)
                        then take (unat numBytes) data ! (c - sim_column (nand_address address))
                        else cells (nand_dev s) r c)"
    by (simp add: devp sim_program_def Let_def st_def nand_address_def cong: if_cong)
  show ?thesis
    unfolding res st_def[symmetric]
    using fr4 dev4 cellsp live waits_end_cong[OF fr4(3,4)]
    by (cases "st AND 0x01 \<noteq> 0") (simp_all add: nand_proj waits_end_def)
qed


lemma nandReadData_sim:
  fixes s :: "nand_sim hw"
  assumes we: "nand_we s = sim_we" and re: "nand_re s = sim_re" and live: "waits_end s"
  shows "\<exists>s2. nandReadData address numBytes s = Some s2 \<and>
           last (serial s2) =
             HexDump (map (\<lambda>i. cells (nand_dev s) (sim_row (nand_address address))
                                   (sim_column (nand_address address) + i))
                          [0..<unat numBytes])"
proof -
  define p where "p =
          (let pageSize = (512 :: uint);
               page = (ucast (address div ucast pageSize) :: uint);
               offset = (ucast (address mod ucast pageSize) :: uint);
               s = digitalWrite NAND_CE_PIN False s;
               s = digitalWrite NAND_CLE_PIN True s;
               s = nandWriteByte NAND_CMD_READ s;
               s = digitalWrite NAND_CLE_PIN False s;
               s = digitalWrite NAND_ALE_PIN True s;
               s = nandWriteByte (ucast (offset AND 0xFF)) s;
               s = nandWriteByte (ucast (drop_bit 8 offset AND 0xFF)) s;
               s = nandWriteByte (ucast (page AND 0xFF)) s;
               s = nandWriteByte (ucast (drop_bit 8 page AND 0xFF)) s;
               s = nandWriteByte (ucast (drop_bit 16 page AND 0xFF)) s;
               s = digitalWrite NAND_ALE_PIN False s;
               s = digitalWrite NAND_CLE_PIN True s;
               s = nandWriteByte NAND_CMD_READ_CONFIRM s;
               s = digitalWrite NAND_CLE_PIN False s
           in s)"
  have eq: "nandReadData address numBytes s =
             map_option
               (\<lambda>s. let s = hexDump nandReadByte numBytes s
                    in digitalWrite NAND_CE_PIN True s)
               (waitForNandReady p)"
    by (simp only: nandReadData_def Let_def p_def)
  have frp: "nand_we p = sim_we" "nand_re p = sim_re" "rb_src p = rb_src s"
    "millis_src p = millis_src s" "\<not> pins p NAND_CE_PIN"
    by (simp_all add: p_def Let_def nand_proj we re)
  have devp: "nand_dev p =
          (nand_dev s)\<lparr>mode := DataOutput, addr_reg := nand_address address,
                        row_ptr := sim_row (nand_address address),
                        col_ptr := sim_column (nand_address address)\<rparr>"
    by (simp add: p_def Let_def nand_proj we sim_we_def sim_command_def nand_address_def)
  have "waits_end p"
    using live waits_end_cong[OF frp(3,4)] by simp
  then obtain w where W: "waitForNandReady p = Some w"
    using wait_returns by blast
  note wk = wait_keeps[OF W]
  have out: "fst (hexDump_loop nandReadByte (unat numBytes) w) =
           map (\<lambda>i. cells (nand_dev s) (sim_row (nand_address address))
                      (sim_column (nand_address address) + i)) [0..<unat numBytes]"
    using frp(5) by (subst sim_data_out) (simp_all add: wk frp devp)
  show ?thesis
    unfolding eq W by (simp add: hexDump_def Let_def nand_proj out)
qed

text \<open>
  Claim C3. On a board whose socket holds the simulated NAND device, and whose ready waits
  end, let \<open>data\<close> have \<open>numBytes\<close> bytes with \<open>address mod 512 + numBytes \<le> 512\<close>. Then
  nandWriteData returns, leaving in the status register the outcome that the device drew; and
  if bit 0 of that status is clear, the write has reported \<open>ProgramSuccessful\<close> and a following
  nandReadData of \<open>numBytes\<close> bytes at \<open>address\<close> returns and dumps exactly \<open>data\<close>.
\<close>

theorem nand_write_then_read_returns_data:
  fixes s :: "nand_sim hw"
  assumes we: "nand_we s = sim_we" and re: "nand_re s = sim_re" and live: "waits_end s"
      and len: "length data = unat numBytes"
      and fits: "unat address mod 512 + unat numBytes \<le> 512"
  shows "\<exists>s1. nandWriteData address data numBytes s = Some s1 \<and>
           status_reg (nand_dev s1) = outcome_src (nand_dev s) (outcomes (nand_dev s)) \<and>
           (status_reg (nand_dev s1) AND 0x01 = 0 \<longrightarrow>
              last (serial s1) = ProgramSuccessful \<and>
              (\<exists>s2. nandReadData address numBytes s1 = Some s2 \<and>
                    last (serial s2) = HexDump data))"
proof -
  have "unat (ucast (address mod 512) :: uint) + unat numBytes < 2 ^ LENGTH(16)"
    using fits by (simp add: nand_offset)
  hence "unat ((ucast (address mod 512) :: uint) + numBytes) = unat address mod 512 + unat numBytes"
    by (simp only: unat_add_lem[THEN iffD1] nand_offset)
  hence "\<not> (512 :: uint) < ucast (address mod 512) + numBytes"
    using fits by (simp add: word_less_nat_alt)
  hence ok: "\<not> (512 :: uint) < ucast (address mod ucast (512 :: uint)) + numBytes"
    by simp
  from nandWriteData_sim[OF we re live ok, of data]
  obtain s1 where w: "nandWriteData address data numBytes s = Some s1"
      and k: "nand_we s1 = sim_we" "nand_re s1 = sim_re" "waits_end s1"
      and st: "status_reg (nand_dev s1) = outcome_src (nand_dev s) (outcomes (nand_dev s))"
      and msg: "last (serial s1) =
             (if outcome_src (nand_dev s) (outcomes (nand_dev s)) AND 0x01 \<noteq> 0
              then ProgramFailed else ProgramSuccessful)"
      and stored: "outcome_src (nand_dev s) (outcomes (nand_dev s)) AND 0x01 = 0 \<longrightarrow>
              cells (nand_dev s1) =
                (\<lambda>r c. if r = sim_row (nand_address address) \<and>
                           sim_column (nand_address address) \<le> c \<and>
                           c < sim_column (nand_address address) + length (take (unat numBytes) data)
                        then take (unat numBytes) data ! (c - sim_column (nand_address address))
                        else cells (nand_dev s) r c)"
    by blast
  from nandReadData_sim[OF k, of address numBytes]
  obtain s2 where r: "nandReadData address numBytes s1 = Some s2"
      and dump: "last (serial s2) =
             HexDump (map (\<lambda>i. cells (nand_dev s1) (sim_row (nand_address address))
                                   (sim_column (nand_address address) + i))
                          [0..<unat numBytes])"
    by blast
  have same: "map (\<lambda>i. cells (nand_dev s1) (sim_row (nand_address address))
                                   (sim_column (nand_address address) + i))
                          [0..<unat numBytes] = data"
    if "status_reg (nand_dev s1) AND 0x01 = 0"
  proof -
    from that stored st
    have c: "cells (nand_dev s1) =
                (\<lambda>r c. if r = sim_row (nand_address address) \<and>
                           sim_column (nand_address address) \<le> c \<and>
                           c < sim_column (nand_address address) + length (take (unat numBytes) data)
                        then take (unat numBytes) data ! (c - sim_column (nand_address address))
                        else cells (nand_dev s) r c)"
      by simp
    have "map (\<lambda>i. cells (nand_dev s1) (sim_row (nand_address address))
                                   (sim_column (nand_address address) + i))
                          [0..<length data] = map (\<lambda>i. data ! i) [0..<length data]"
      by (rule map_cong) (simp_all add: c len)
    thus ?thesis
      by (simp only: len[symmetric] map_nth)
  qed
  show ?thesis
    using w st msg r dump same by auto
qed

theorem nand_write_then_read_returns_data_witness:
  "\<exists>s1 s2. nandWriteData 0x205 [0xDE, 0xAD, 0xBE] 3 sim_bench = Some s1 \<and>
           status_reg (nand_dev s1) AND 0x01 = 0 \<and>
           last (serial s1) = ProgramSuccessful \<and>
           nandReadData 0x205 3 s1 = Some s2 \<and>
           last (serial s2) = HexDump [0xDE, 0xAD, 0xBE]"
proof -
  have h: "nand_we sim_bench = sim_we" "nand_re sim_bench = sim_re" "waits_end sim_bench"
    "length [0xDE, 0xAD, 0xBE :: byte] = unat (3 :: uint)"
    "unat (0x205 :: ulong) mod 512 + unat (3 :: uint) \<le> 512"
    by (simp_all add: sim_bench_def waits_end_def)
  have o: "outcome_src (nand_dev sim_bench) (outcomes (nand_dev sim_bench)) AND 0x01 = 0"
    by (simp add: sim_bench_def blank_nand_def)
  from nand_write_then_read_returns_data[OF h]
  obtain s1 where a: "nandWriteData 0x205 [0xDE, 0xAD, 0xBE] 3 sim_bench = Some s1"
      and b: "status_reg (nand_dev s1) =
                outcome_src (nand_dev sim_bench) (outcomes (nand_dev sim_bench))"
      and c: "status_reg (nand_dev s1) AND 0x01 = 0 \<longrightarrow>
              last (serial s1) = ProgramSuccessful \<and>
              (\<exists>s2. nandReadData 0x205 3 s1 = Some s2 \<and>
                    last (serial s2) = HexDump [0xDE, 0xAD, 0xBE])"
    by blast
  have d: "status_reg (nand_dev s1) AND 0x01 = 0"
    by (simp only: b o)
  from a c d show ?thesis
    by blast
qed

end
